theory Spec2Isabelle
  imports Main "HOL-Library.Sublist" "HOL-Library.Multiset"
begin

section \<open>Strings and numbers of the Go runtime\<close>

text \<open>
  Go strings are byte sequences; they are modelled as \<^typ>\<open>string\<close>.  Go's \<open>int\<close> is a
  64-bit signed integer; the program never does arithmetic on the integers it carries
  (application identifiers, player counts, limits, durations), it only compares them and
  prints them, so they are modelled as \<^typ>\<open>int\<close>.
\<close>

text \<open>The backslash that delimits the segments of the filter micro-format.\<close>

definition bs :: char where
  "bs = CHR 0x5C"

text \<open>\<open>strconv.Itoa\<close>: the decimal rendering of an integer, with a leading minus sign
  for a negative one.\<close>

function udigits :: "nat \<Rightarrow> string" where
  "udigits n = (if n < 10 then [''0123456789'' ! n]
                else udigits (n div 10) @ [''0123456789'' ! (n mod 10)])"
  by pat_completeness auto
termination by (relation "measure id") auto

declare udigits.simps [simp del]

definition Itoa :: "int \<Rightarrow> string" where
  "Itoa i = (if i < 0 then ''-'' @ udigits (nat (- i)) else udigits (nat i))"

text \<open>\<open>strings.Join\<close>.\<close>

fun Join :: "string list \<Rightarrow> string \<Rightarrow> string" where
  "Join [] sep = []"
| "Join [x] sep = x"
| "Join (x # y # ys) sep = x @ sep @ Join (y # ys) sep"

text \<open>\<open>strings.Contains\<close>: some suffix of the string starts with the substring.\<close>

fun Contains :: "string \<Rightarrow> string \<Rightarrow> bool" where
  "Contains [] sub = (sub = [])"
| "Contains (c # cs) sub = (prefix sub (c # cs) \<or> Contains cs sub)"


section \<open>The server-list filter and its encoder\<close>

record GetServerListFilter =
  NotOr :: "string list"
  NotAnd :: "string list"
  Dedicated :: bool
  Secure :: bool
  GameDir :: string
  Map :: string
  Linux :: bool
  NoPassword :: bool
  NotEmpty :: bool
  NotFull :: bool
  Proxy :: bool
  AppID :: int
  NotAppID :: int
  NoPlayers :: bool
  Whitelisted :: bool
  GameTypeTags :: "string list"
  GameDataTags :: "string list"
  GameDataOrTags :: "string list"
  NameMatch :: string
  VersionMatch :: string
  CollapseAddrHash :: bool
  GameAddr :: string
  NoHidden :: bool
  NoDefaultServers :: bool
  Limit :: int

text \<open>One \<open>if cond { query += seg }\<close> statement of the encoder.\<close>

definition emit :: "bool \<Rightarrow> string \<Rightarrow> string \<Rightarrow> string" where
  "emit cond seg query = (if cond then query @ seg else query)"

text \<open>\<open>GetServerListFilter.String\<close>: the statements of the method, top to bottom.\<close>

definition String :: "GetServerListFilter \<Rightarrow> string" where
  "String g =
    (let query = bs # ''appid'' @ [bs] @ Itoa (AppID g);
         query = emit (Dedicated g) (bs # ''dedicated'' @ [bs] @ ''1'') query;
         query = emit (Secure g) (bs # ''secure'' @ [bs] @ ''1'') query;
         query = emit (GameDir g \<noteq> []) (bs # ''gamedir'' @ [bs] @ GameDir g) query;
         query = emit (Map g \<noteq> []) (bs # ''map'' @ [bs] @ Map g) query;
         query = emit (Linux g) (bs # ''linux'' @ [bs] @ ''1'') query;
         query = emit (NoPassword g) (bs # ''password'' @ [bs] @ ''0'') query;
         query = emit (NotEmpty g) (bs # ''empty'' @ [bs] @ ''1'') query;
         query = emit (NotFull g) (bs # ''full'' @ [bs] @ ''1'') query;
         query = emit (Proxy g) (bs # ''proxy'' @ [bs] @ ''1'') query;
         query = emit (NotAppID g \<noteq> 0) (bs # ''napp'' @ [bs] @ Itoa (NotAppID g)) query;
         query = emit (NoPlayers g) (bs # ''noplayers'' @ [bs] @ ''1'') query;
         query = emit (Whitelisted g) (bs # ''white'' @ [bs] @ ''1'') query;
         query = emit (length (GameTypeTags g) \<noteq> 0)
                   (bs # ''gametype'' @ [bs] @ Join (GameTypeTags g) '';'') query;
         query = emit (length (GameDataTags g) \<noteq> 0)
                   (bs # ''gamedata'' @ [bs] @ Join (GameDataTags g) '','') query;
         query = emit (length (GameDataOrTags g) \<noteq> 0)
                   (bs # ''gamedataor'' @ [bs] @ Join (GameDataOrTags g) '','') query;
         query = emit (NameMatch g \<noteq> [])
                   (bs # ''name_match'' @ [bs] @ ''*'' @ NameMatch g @ ''*'') query
     in query)"

text \<open>The errors of the package.  \<open>ErrWrongStatusCode\<close> carries the numeric code and the
  status text it is wrapped with; \<open>ErrRequiredParam\<close> and \<open>ErrConfigUndefinedParam\<close> carry the
  parameter name.  \<open>ErrExternal\<close> stands for an error value produced outside the package
  (by \<open>net/http\<close>, \<open>io\<close> or \<open>encoding/json\<close>) and handed on unchanged.\<close>

datatype error =
    ErrRequiredParam string
  | ErrConfigUndefinedParam string
  | ErrWrongStatusCode int string
  | ErrEmptyResponse
  | ErrExternal string

text \<open>\<open>GetServerListFilter.Validate\<close>: \<open>None\<close> is the nil error.\<close>

definition Validate :: "GetServerListFilter \<Rightarrow> error option" where
  "Validate g = (if AppID g = 0 then Some (ErrRequiredParam ''appid'') else None)"

text \<open>The filter with every field at its zero value, \<open>GetServerListFilter{}\<close>.\<close>

definition zeroFilter :: GetServerListFilter where
  "zeroFilter = \<lparr> NotOr = [], NotAnd = [], Dedicated = False, Secure = False, GameDir = [],
     Map = [], Linux = False, NoPassword = False, NotEmpty = False, NotFull = False,
     Proxy = False, AppID = 0, NotAppID = 0, NoPlayers = False, Whitelisted = False,
     GameTypeTags = [], GameDataTags = [], GameDataOrTags = [], NameMatch = [],
     VersionMatch = [], CollapseAddrHash = False, GameAddr = [], NoHidden = False,
     NoDefaultServers = False, Limit = 0 \<rparr>"


section \<open>Response models\<close>

text \<open>Fields whose Go name is shared with a field of another struct carry the struct's
  name as a prefix.\<close>

record PlayerBans =
  PlayerBans_SteamID :: string
  CommunityBanned :: bool
  VACBanned :: bool
  NumberOfVACBans :: int
  DaysSinceLastBan :: int
  NumberOfGameBans :: int
  EconomyBan :: string

record Server =
  Addr :: string
  GamePort :: int
  SteamID :: string
  Name :: string
  Server_AppID :: int
  Server_GameDir :: string
  Version :: string
  Product :: string
  Region :: int
  Players :: int
  MaxPlayers :: int
  Bots :: int
  Server_Map :: string
  Server_Secure :: bool
  Server_Dedicated :: bool
  OS :: string
  GameType :: string


section \<open>Configuration\<close>

text \<open>A \<open>time.Duration\<close> is a number of nanoseconds; a \<open>time.Time\<close> is kept as an opaque
  number.\<close>

definition Second :: int where
  "Second = 1000000000"

definition DefaultSteamURL :: string where
  "DefaultSteamURL = ''https://api.steampowered.com''"

definition DefaultTimeout :: int where
  "DefaultTimeout = 10 * Second"

definition DefaultTLSHandshakeTimeout :: int where
  "DefaultTLSHandshakeTimeout = 5 * Second"

definition DefaultDialerTimeout :: int where
  "DefaultDialerTimeout = 5 * Second"

definition DefaultLimit :: int where
  "DefaultLimit = 50000"

record Dialer =
  Dialer_Timeout :: int
  Deadline :: int
  FallbackDelay :: int
  KeepAlive :: int

record Transport =
  Dialer :: Dialer
  TLSHandshakeTimeout :: int

record Config =
  Disabled :: bool
  Key :: string
  URL :: string
  Timeout :: int
  Transport :: Transport
  Config_Limit :: int
  DefaultServerNames :: "string list"

text \<open>\<open>Config.Validate\<close>.\<close>

definition Config_Validate :: "Config \<Rightarrow> error option" where
  "Config_Validate cfg =
    (if Disabled cfg then None
     else if Key cfg = [] then Some (ErrConfigUndefinedParam ''key'')
     else if URL cfg = [] then Some (ErrConfigUndefinedParam ''url'')
     else None)"

text \<open>\<open>Config.SetDefaults\<close>: five guarded assignments, in the order of the source.  The
  method writes through its pointer receiver; the model returns the updated value.\<close>

definition SetDefaults :: "Config \<Rightarrow> Config" where
  "SetDefaults cfg =
    (let cfg = (if URL cfg = [] then cfg\<lparr>URL := DefaultSteamURL\<rparr> else cfg);
         cfg = (if Timeout cfg = 0 then cfg\<lparr>Timeout := DefaultTimeout\<rparr> else cfg);
         cfg = (if TLSHandshakeTimeout (Transport cfg) = 0
                then cfg\<lparr>Transport := (Transport cfg)
                       \<lparr>TLSHandshakeTimeout := DefaultTLSHandshakeTimeout\<rparr>\<rparr>
                else cfg);
         cfg = (if Dialer_Timeout (Dialer (Transport cfg)) = 0
                then cfg\<lparr>Transport := (Transport cfg)
                       \<lparr>Dialer := (Dialer (Transport cfg))
                          \<lparr>Dialer_Timeout := DefaultDialerTimeout\<rparr>\<rparr>\<rparr>
                else cfg);
         cfg = (if Config_Limit cfg = 0 then cfg\<lparr>Config_Limit := DefaultLimit\<rparr> else cfg)
     in cfg)"


section \<open>The client\<close>

text \<open>The settings \<open>NewClient\<close> copies into the \<open>http.Client\<close> it builds.\<close>

record HttpClient =
  http_Timeout :: int
  http_Dialer :: Dialer
  http_TLSHandshakeTimeout :: int

text \<open>\<open>config\<close> is the \<open>Config\<close> object the client points to.\<close>

record Client =
  config :: Config
  http :: HttpClient

text \<open>\<open>NewClient\<close>: the defaults are applied to the configuration first, and the HTTP client
  is built from the result.\<close>

definition NewClient :: "Config \<Rightarrow> Client" where
  "NewClient cfg0 =
    (let cfg = SetDefaults cfg0
     in \<lparr> config = cfg,
          http = \<lparr> http_Timeout = Timeout cfg,
                   http_Dialer = \<lparr> Dialer_Timeout = Dialer_Timeout (Dialer (Transport cfg)),
                                   Deadline = Deadline (Dialer (Transport cfg)),
                                   FallbackDelay = FallbackDelay (Dialer (Transport cfg)),
                                   KeepAlive = KeepAlive (Dialer (Transport cfg)) \<rparr>,
                   http_TLSHandshakeTimeout = TLSHandshakeTimeout (Transport cfg) \<rparr> \<rparr>)"


section \<open>The world outside the package\<close>

text \<open>What \<open>http.Client.Do\<close> hands back when it reports no error: the status code, the
  status text, and what \<open>io.ReadAll\<close> makes of the body (an error or the bytes).\<close>

record Response =
  StatusCode :: int
  Status :: string
  Body :: "error + string"

text \<open>
  The standard library and the remote service are parameters of the model:
  \<^item> \<open>NewRequest\<close>: \<open>http.NewRequestWithContext\<close>, which rejects a malformed URI with an error;
  \<^item> \<open>Do\<close>: \<open>http.Client.Do\<close>, which returns an error, or a response that may be nil;
  \<^item> \<open>UnmarshalPlayers\<close>, \<open>UnmarshalServers\<close>: \<open>json.Unmarshal\<close> into the two response
    structs, returning the decoded list or an error;
  \<^item> \<open>SortLong\<close>: what \<open>sort.Slice\<close> does with a slice of more than twelve elements (see below).
\<close>

record Env =
  NewRequest :: "string \<Rightarrow> error option"
  Do :: "string \<Rightarrow> error + Response option"
  UnmarshalPlayers :: "string \<Rightarrow> error + PlayerBans list"
  UnmarshalServers :: "string \<Rightarrow> error + Server list"
  SortLong :: "(Server \<Rightarrow> Server \<Rightarrow> bool) \<Rightarrow> Server list \<Rightarrow> Server list"

text \<open>The state the operations run in: the client, and the URIs of the HTTP requests
  handed to the transport so far, oldest first.\<close>

record World =
  client :: Client
  requests :: "string list"

definition StatusOK :: int where
  "StatusOK = 200"

text \<open>\<open>Client.sendRequest\<close>.  The method is always GET and the body always empty, so only
  the URI is a parameter.  Each \<open>return nil, err\<close> of the source is an \<open>Inl\<close>.\<close>

definition sendRequest :: "Env \<Rightarrow> string \<Rightarrow> World \<Rightarrow> (error + string) \<times> World" where
  "sendRequest env uri w =
    (case NewRequest env uri of
       Some err \<Rightarrow> (Inl err, w)
     | None \<Rightarrow>
        (let w' = w\<lparr>requests := requests w @ [uri]\<rparr>
         in case Do env uri of
              Inl err \<Rightarrow> (Inl err, w')
            | Inr None \<Rightarrow> (Inl ErrEmptyResponse, w')
            | Inr (Some res) \<Rightarrow>
                if StatusCode res \<noteq> StatusOK
                then (Inl (ErrWrongStatusCode (StatusCode res) (Status res)), w')
                else (case Body res of
                        Inl err \<Rightarrow> (Inl err, w')
                      | Inr resBody \<Rightarrow> (Inr resBody, w'))))"

text \<open>The two URL templates, with \<open>fmt.Sprintf\<close> written out.\<close>

definition GetPlayerBansURL :: "string \<Rightarrow> string \<Rightarrow> string" where
  "GetPlayerBansURL key steamids =
     ''/ISteamUser/GetPlayerBans/v1?key='' @ key @ ''&steamids='' @ steamids"

definition GetServerListURL :: "string \<Rightarrow> int \<Rightarrow> string \<Rightarrow> string" where
  "GetServerListURL key limit flt =
     ''/IGameServersService/GetServerList/v1?key='' @ key @ ''&limit='' @ Itoa limit
       @ ''&filter='' @ flt"

text \<open>\<open>Client.GetPlayerBans\<close>.  The \<open>Players\<close> field of a fresh response struct is the
  empty (nil) slice.\<close>

definition GetPlayerBans :: "Env \<Rightarrow> string list \<Rightarrow> World \<Rightarrow> (error + PlayerBans list) \<times> World"
  where
  "GetPlayerBans env steamIDs w =
    (let c = client w in
     if Disabled (config c) then (Inr [], w)
     else
       let uri = URL (config c) @ GetPlayerBansURL (Key (config c)) (Join steamIDs '','')
       in case sendRequest env uri w of
            (Inl err, w') \<Rightarrow> (Inl err, w')
          | (Inr body, w') \<Rightarrow>
              (case UnmarshalPlayers env body of
                 Inl err \<Rightarrow> (Inl err, w')
               | Inr players \<Rightarrow> (Inr players, w')))"


section \<open>Post-fetch filter and sort\<close>

text \<open>\<open>Client.removeFilteredServers\<close>: the servers whose address is not a key of the map,
  appended to the result in input order.\<close>

definition removeFilteredServers :: "Server list \<Rightarrow> (string \<rightharpoonup> bool) \<Rightarrow> Server list" where
  "removeFilteredServers servers addrs =
     foldl (\<lambda>result s. if addrs (Addr s) = None then result @ [s] else result) [] servers"

text \<open>The inner loop of \<open>filterServers\<close> over the configured default names.  The
  \<open>continue\<close> in its body continues this inner loop, so every name is compared.\<close>

definition markDefaultNames :: "string list \<Rightarrow> Server \<Rightarrow> (string \<rightharpoonup> bool) \<Rightarrow> (string \<rightharpoonup> bool)"
  where
  "markDefaultNames names server removeAddrs =
     foldl (\<lambda>m name. if Name server = name then m(Addr server \<mapsto> True) else m) removeAddrs names"

text \<open>One iteration of the outer loop of \<open>filterServers\<close>.\<close>

definition markServer ::
  "Config \<Rightarrow> GetServerListFilter \<Rightarrow> (string \<rightharpoonup> bool) \<Rightarrow> Server \<Rightarrow> (string \<rightharpoonup> bool)" where
  "markServer cfg flt removeAddrs server =
    (if NoHidden flt \<and> Contains (GameType server) ''hidden''
     then removeAddrs(Addr server \<mapsto> True)
     else if NoDefaultServers flt
          then markDefaultNames (DefaultServerNames cfg) server removeAddrs
          else removeAddrs)"

text \<open>The map \<open>removeAddrs\<close> after the outer loop.\<close>

definition collectRemoveAddrs ::
  "Config \<Rightarrow> GetServerListFilter \<Rightarrow> Server list \<Rightarrow> (string \<rightharpoonup> bool)" where
  "collectRemoveAddrs cfg flt servers = foldl (markServer cfg flt) Map.empty servers"

text \<open>The first statement of \<open>filterServers\<close>: the exclusion step, which runs when one of
  the two custom filters is set.\<close>

definition excludeServers :: "Config \<Rightarrow> Server list \<Rightarrow> GetServerListFilter \<Rightarrow> Server list" where
  "excludeServers cfg servers flt =
    (if NoHidden flt \<or> NoDefaultServers flt
     then removeFilteredServers servers (collectRemoveAddrs cfg flt servers)
     else servers)"

text \<open>The comparison handed to \<open>sort.Slice\<close>:
  \<open>servers[i].Players > servers[j].Players\<close>.\<close>

definition playersLess :: "Server \<Rightarrow> Server \<Rightarrow> bool" where
  "playersLess a b = (Players a > Players b)"

text \<open>
  \<open>sort.Slice\<close> belongs to Go's standard library, not to this repository.  Its documentation
  promises a slice sorted under \<open>less\<close> and says that the sort is not guaranteed to be stable.
  Since Go 1.19 (the repository asks for Go 1.23) it runs \<open>pdqsort_func\<close>, whose first
  statement sorts a range of at most twelve elements by insertion sort:

  \<^verbatim>\<open>for i := a + 1; i < b; i++ {
    for j := i; j > a && data.Less(j, j-1); j-- { data.Swap(j, j-1) } }\<close>

  That branch is modelled as it is written, on indices; \<open>j\<close> stays below the length of
  the slice, so every read is in range.  What happens to a longer slice (pivot selection,
  partitioning, the heap sort fallback) is the parameter \<open>SortLong\<close>.
\<close>

definition swap :: "'a list \<Rightarrow> nat \<Rightarrow> nat \<Rightarrow> 'a list" where
  "swap xs i j = xs[i := xs ! j, j := xs ! i]"

fun insertDown :: "('a \<Rightarrow> 'a \<Rightarrow> bool) \<Rightarrow> nat \<Rightarrow> 'a list \<Rightarrow> 'a list" where
  "insertDown lt 0 xs = xs"
| "insertDown lt (Suc j) xs =
     (if lt (xs ! Suc j) (xs ! j) then insertDown lt j (swap xs (Suc j) j) else xs)"

definition insertionSort :: "('a \<Rightarrow> 'a \<Rightarrow> bool) \<Rightarrow> 'a list \<Rightarrow> 'a list" where
  "insertionSort lt xs = foldl (\<lambda>ys i. insertDown lt i ys) xs [1 ..< length xs]"

definition maxInsertion :: nat where
  "maxInsertion = 12"

definition sort_Slice ::
  "(('a \<Rightarrow> 'a \<Rightarrow> bool) \<Rightarrow> 'a list \<Rightarrow> 'a list) \<Rightarrow> ('a \<Rightarrow> 'a \<Rightarrow> bool) \<Rightarrow> 'a list \<Rightarrow> 'a list" where
  "sort_Slice sortLong lt xs =
     (if length xs \<le> maxInsertion then insertionSort lt xs else sortLong lt xs)"

text \<open>The documented contract of \<open>sort.Slice\<close>, for the long branch: the result is a
  rearrangement of the input in which no element is \<open>less\<close> than one before it.\<close>

definition sortsBy :: "(('a \<Rightarrow> 'a \<Rightarrow> bool) \<Rightarrow> 'a list \<Rightarrow> 'a list) \<Rightarrow> ('a \<Rightarrow> 'a \<Rightarrow> bool) \<Rightarrow> bool"
  where
  "sortsBy sortLong lt =
     (\<forall>xs. mset (sortLong lt xs) = mset xs \<and> sorted_wrt (\<lambda>a b. \<not> lt b a) (sortLong lt xs))"

text \<open>\<open>Client.filterServers\<close>: the exclusion step, then the sort.\<close>

definition filterServers ::
  "((Server \<Rightarrow> Server \<Rightarrow> bool) \<Rightarrow> Server list \<Rightarrow> Server list) \<Rightarrow> Config \<Rightarrow> Server list
     \<Rightarrow> GetServerListFilter \<Rightarrow> Server list" where
  "filterServers sortLong cfg servers flt =
     sort_Slice sortLong playersLess (excludeServers cfg servers flt)"

text \<open>\<open>Client.GetServerList\<close>.\<close>

definition GetServerList ::
  "Env \<Rightarrow> GetServerListFilter \<Rightarrow> World \<Rightarrow> (error + Server list) \<times> World" where
  "GetServerList env flt w =
    (let c = client w in
     if Disabled (config c) then (Inr [], w)
     else
       let limit = (if Limit flt = 0 then DefaultLimit else Limit flt);
           uri = URL (config c) @ GetServerListURL (Key (config c)) limit (String flt)
       in case sendRequest env uri w of
            (Inl err, w') \<Rightarrow> (Inl err, w')
          | (Inr body, w') \<Rightarrow>
              (case UnmarshalServers env body of
                 Inl err \<Rightarrow> (Inl err, w')
               | Inr servers \<Rightarrow> (Inr (filterServers (SortLong env) (config c) servers flt), w')))"


text \<open>What the inner loop of the insertion sort does to the sorted range before position
  \<open>j\<close>, read from position \<open>j - 1\<close> downwards: the element moves past every neighbour
  it is \<open>less\<close> than and stops at the first one it is not.\<close>

fun insRev :: "('a \<Rightarrow> 'a \<Rightarrow> bool) \<Rightarrow> 'a \<Rightarrow> 'a list \<Rightarrow> 'a list" where
  "insRev lt x [] = [x]"
| "insRev lt x (y # r) = (if lt x y then y # insRev lt x r else x # y # r)"

text \<open>The insertion sort as a fold: each element in turn is inserted into the sorted
  elements before it.\<close>

definition insertLast :: "('a \<Rightarrow> 'a \<Rightarrow> bool) \<Rightarrow> 'a list \<Rightarrow> 'a \<Rightarrow> 'a list" where
  "insertLast lt ys x = rev (insRev lt x (rev ys))"

definition insertionSort_fold :: "('a \<Rightarrow> 'a \<Rightarrow> bool) \<Rightarrow> 'a list \<Rightarrow> 'a list" where
  "insertionSort_fold lt xs = foldl (insertLast lt) [] xs"

text \<open>Descending order of player counts, and stability of a rearrangement: the servers
  of each player count appear in the same order before and after.\<close>

definition descending :: "Server list \<Rightarrow> bool" where
  "descending xs = sorted_wrt (\<lambda>a b. Players a \<ge> Players b) xs"

definition keepsTies :: "Server list \<Rightarrow> Server list \<Rightarrow> bool" where
  "keepsTies before after =
     (\<forall>n. filter (\<lambda>s. Players s = n) after = filter (\<lambda>s. Players s = n) before)"

text \<open>A sort that meets the contract of \<open>sort.Slice\<close> and is not stable: one step of
  quicksort as \<open>pdqsort_func\<close> starts it on a slice of 13 to 49 elements, followed by
  insertion sort of the two sides.  The pivot is the element at position \<open>l/4*2\<close>;
  \<open>partition_func\<close> first swaps it with the element at the front.\<close>

definition pivotSort :: "('a \<Rightarrow> 'a \<Rightarrow> bool) \<Rightarrow> 'a list \<Rightarrow> 'a list" where
  "pivotSort lt xs =
     (if xs = [] then []
      else let ys = swap xs 0 (length xs div 4 * 2);
               pivot = hd ys;
               rest = tl ys
           in insertionSort lt (filter (\<lambda>x. lt x pivot) rest)
                @ pivot # insertionSort lt (filter (\<lambda>x. \<not> lt x pivot) rest))"


section \<open>The custom-filter pass with an early exit\<close>

text \<open>The simplification the specification proposes: the loop over the default names
  leaves at the first name that matches.  Everything else is as in the source.\<close>

fun markDefaultNames_break :: "string list \<Rightarrow> Server \<Rightarrow> (string \<rightharpoonup> bool) \<Rightarrow> (string \<rightharpoonup> bool)"
  where
  "markDefaultNames_break [] server removeAddrs = removeAddrs"
| "markDefaultNames_break (name # names) server removeAddrs =
     (if Name server = name then removeAddrs(Addr server \<mapsto> True)
      else markDefaultNames_break names server removeAddrs)"

definition markServer_break ::
  "Config \<Rightarrow> GetServerListFilter \<Rightarrow> (string \<rightharpoonup> bool) \<Rightarrow> Server \<Rightarrow> (string \<rightharpoonup> bool)" where
  "markServer_break cfg flt removeAddrs server =
    (if NoHidden flt \<and> Contains (GameType server) ''hidden''
     then removeAddrs(Addr server \<mapsto> True)
     else if NoDefaultServers flt
          then markDefaultNames_break (DefaultServerNames cfg) server removeAddrs
          else removeAddrs)"

definition collectRemoveAddrs_break ::
  "Config \<Rightarrow> GetServerListFilter \<Rightarrow> Server list \<Rightarrow> (string \<rightharpoonup> bool)" where
  "collectRemoveAddrs_break cfg flt servers = foldl (markServer_break cfg flt) Map.empty servers"

definition filterServers_break ::
  "((Server \<Rightarrow> Server \<Rightarrow> bool) \<Rightarrow> Server list \<Rightarrow> Server list) \<Rightarrow> Config \<Rightarrow> Server list
     \<Rightarrow> GetServerListFilter \<Rightarrow> Server list" where
  "filterServers_break sortLong cfg servers flt =
     sort_Slice sortLong playersLess
       (if NoHidden flt \<or> NoDefaultServers flt
        then removeFilteredServers servers (collectRemoveAddrs_break cfg flt servers)
        else servers)"


section \<open>The fixtures of the test suite\<close>

text \<open>\<open>newConfig\<close> of \<open>client_test.go\<close>; the fields it does not name are at their zero
  value.\<close>

definition newConfig :: "string \<Rightarrow> Config" where
  "newConfig uri =
     \<lparr> Disabled = False, Key = ''R1jamSsz17LHA9WgDW099YGfCs4fn0m0'', URL = uri, Timeout = 0,
       Transport = \<lparr> Dialer = \<lparr> Dialer_Timeout = 0, Deadline = 0, FallbackDelay = 0,
                                 KeepAlive = 0 \<rparr>,
                     TLSHandshakeTimeout = 0 \<rparr>,
       Config_Limit = 0, DefaultServerNames = [''My PZ Server''] \<rparr>"

text \<open>The five servers the test server of \<open>TestClient_GetServerList\<close> answers with, in the
  order of its JSON body.\<close>

definition server1 :: Server where
  "server1 = \<lparr> Addr = ''127.0.0.1:16261'', GamePort = 16261, SteamID = ''90268762852129810'',
     Name = ''My PZ Server'', Server_AppID = 108600, Server_GameDir = ''zomboid'',
     Version = ''1.0.0.0'', Product = ''zomboid'', Region = - 1, Players = 2, MaxPlayers = 32,
     Bots = 0, Server_Map = [], Server_Secure = True, Server_Dedicated = True, OS = ''w'',
     GameType = ''hidden;hosted'' \<rparr>"

definition server2 :: Server where
  "server2 = \<lparr> Addr = ''127.0.0.2:16267'', GamePort = 16267, SteamID = ''90268762793969688'',
     Name = ''Super Server'', Server_AppID = 108600, Server_GameDir = ''zomboid'',
     Version = ''1.0.0.0'', Product = ''zomboid'', Region = - 1, Players = 0, MaxPlayers = 10,
     Bots = 0, Server_Map = ''vehicle_interior;SecretZ_v4;InG'', Server_Secure = False,
     Server_Dedicated = True, OS = ''w'', GameType = [] \<rparr>"

definition server3 :: Server where
  "server3 = \<lparr> Addr = ''127.0.0.3:16260'', GamePort = 16260, SteamID = ''90268200350011416'',
     Name = ''Best Server'', Server_AppID = 108600, Server_GameDir = ''zomboid'',
     Version = ''1.0.0.0'', Product = ''zomboid'', Region = - 1, Players = 9, MaxPlayers = 30,
     Bots = 0, Server_Map = ''Muldraugh, KY'', Server_Secure = True, Server_Dedicated = True,
     OS = ''l'', GameType = [] \<rparr>"

definition server4 :: Server where
  "server4 = \<lparr> Addr = ''127.0.0.4:16261'', GamePort = 16261, SteamID = ''90268799310246930'',
     Name = ''My PZ Server'', Server_AppID = 108600, Server_GameDir = ''zomboid'',
     Version = ''1.0.0.0'', Product = ''zomboid'', Region = - 1, Players = 13, MaxPlayers = 32,
     Bots = 0, Server_Map = ''Muldraugh, KY'', Server_Secure = True, Server_Dedicated = True,
     OS = ''w'', GameType = ''hidden;hosted'' \<rparr>"

definition server5 :: Server where
  "server5 = \<lparr> Addr = ''127.0.0.5:16261'', GamePort = 16261, SteamID = ''90268762155669518'',
     Name = ''My PZ Server'', Server_AppID = 108600, Server_GameDir = ''zomboid'',
     Version = ''1.0.0.0'', Product = ''zomboid'', Region = - 1, Players = 2, MaxPlayers = 2,
     Bots = 0, Server_Map = ''Muldraugh, KY'', Server_Secure = True, Server_Dedicated = True,
     OS = ''w'', GameType = ''hidden;hosted'' \<rparr>"

definition testServers :: "Server list" where
  "testServers = [server1, server2, server3, server4, server5]"

text \<open>The test server: every request is answered with status 200 and a body that decodes
  to the five servers.  Slices of more than twelve servers are sorted by
  \<^const>\<open>pivotSort\<close>.\<close>

definition testEnv :: Env where
  "testEnv = \<lparr> NewRequest = (\<lambda>uri. None),
               Do = (\<lambda>uri. Inr (Some \<lparr> StatusCode = 200, Status = ''200 OK'',
                                       Body = Inr ''{...}'' \<rparr>)),
               UnmarshalPlayers = (\<lambda>body. Inr []),
               UnmarshalServers = (\<lambda>body. Inr testServers),
               SortLong = pivotSort \<rparr>"

text \<open>A transport that answers every request with a given status.\<close>

definition statusEnv :: "int \<Rightarrow> string \<Rightarrow> Env" where
  "statusEnv code text =
     testEnv\<lparr> Do := (\<lambda>uri. Inr (Some \<lparr> StatusCode = code, Status = text,
                                         Body = Inr ''{...}'' \<rparr>)) \<rparr>"

text \<open>A test double that fails whatever reaches it.\<close>

definition unreachableEnv :: Env where
  "unreachableEnv =
     \<lparr> NewRequest = (\<lambda>uri. None),
       Do = (\<lambda>uri. Inl (ErrExternal ''contacted'')),
       UnmarshalPlayers = (\<lambda>body. Inl (ErrExternal ''contacted'')),
       UnmarshalServers = (\<lambda>body. Inl (ErrExternal ''contacted'')),
       SortLong = pivotSort \<rparr>"

definition testURL :: string where
  "testURL = ''http://127.0.0.1:8080''"

text \<open>The world right after \<open>NewClient(cfg)\<close>: no request sent yet.\<close>

definition newWorld :: "Config \<Rightarrow> World" where
  "newWorld cfg = \<lparr> client = NewClient cfg, requests = [] \<rparr>"

text \<open>A server with a given address and player count, every other field at its zero
  value; and thirteen servers, of which the first two report one player and the others
  two.\<close>

definition plainServer :: "string \<Rightarrow> int \<Rightarrow> Server" where
  "plainServer addr n = \<lparr> Addr = addr, GamePort = 0, SteamID = [], Name = [],
     Server_AppID = 0, Server_GameDir = [], Version = [], Product = [], Region = 0,
     Players = n, MaxPlayers = 0, Bots = 0, Server_Map = [], Server_Secure = False,
     Server_Dedicated = False, OS = [], GameType = [] \<rparr>"

definition thirteenServers :: "Server list" where
  "thirteenServers =
     [plainServer ''10.0.0.1'' 1, plainServer ''10.0.0.2'' 1, plainServer ''10.0.0.3'' 2,
      plainServer ''10.0.0.4'' 2, plainServer ''10.0.0.5'' 2, plainServer ''10.0.0.6'' 2,
      plainServer ''10.0.0.7'' 2, plainServer ''10.0.0.8'' 2, plainServer ''10.0.0.9'' 2,
      plainServer ''10.0.0.10'' 2, plainServer ''10.0.0.11'' 2, plainServer ''10.0.0.12'' 2,
      plainServer ''10.0.0.13'' 2]"

text \<open>The order in which \<^const>\<open>pivotSort\<close> returns them.\<close>

definition thirteenSorted :: "Server list" where
  "thirteenSorted =
     [plainServer ''10.0.0.7'' 2, plainServer ''10.0.0.3'' 2, plainServer ''10.0.0.4'' 2,
      plainServer ''10.0.0.5'' 2, plainServer ''10.0.0.6'' 2, plainServer ''10.0.0.8'' 2,
      plainServer ''10.0.0.9'' 2, plainServer ''10.0.0.10'' 2, plainServer ''10.0.0.11'' 2,
      plainServer ''10.0.0.12'' 2, plainServer ''10.0.0.13'' 2, plainServer ''10.0.0.2'' 1,
      plainServer ''10.0.0.1'' 1]"


section \<open>Evaluation rules\<close>

lemma udigits_small [simp]: "n < 10 \<Longrightarrow> udigits n = [''0123456789'' ! n]"
  by (simp add: udigits.simps)

lemma udigits_large [simp]:
  "\<not> n < 10 \<Longrightarrow> udigits n = udigits (n div 10) @ [''0123456789'' ! (n mod 10)]"
  by (subst udigits.simps) simp


section \<open>The filter encoder\<close>

lemma emit_append: "emit c seg q = q @ (if c then seg else [])"
  by (simp add: emit_def)

text \<open>The encoding, segment by segment: the application identifier first, then the
  sixteen fields the encoder knows, in the order of its statements.\<close>

lemma String_segments:
  "String g =
     bs # ''appid'' @ [bs] @ Itoa (AppID g)
     @ (if Dedicated g then bs # ''dedicated'' @ [bs] @ ''1'' else [])
     @ (if Secure g then bs # ''secure'' @ [bs] @ ''1'' else [])
     @ (if GameDir g \<noteq> [] then bs # ''gamedir'' @ [bs] @ GameDir g else [])
     @ (if Map g \<noteq> [] then bs # ''map'' @ [bs] @ Map g else [])
     @ (if Linux g then bs # ''linux'' @ [bs] @ ''1'' else [])
     @ (if NoPassword g then bs # ''password'' @ [bs] @ ''0'' else [])
     @ (if NotEmpty g then bs # ''empty'' @ [bs] @ ''1'' else [])
     @ (if NotFull g then bs # ''full'' @ [bs] @ ''1'' else [])
     @ (if Proxy g then bs # ''proxy'' @ [bs] @ ''1'' else [])
     @ (if NotAppID g \<noteq> 0 then bs # ''napp'' @ [bs] @ Itoa (NotAppID g) else [])
     @ (if NoPlayers g then bs # ''noplayers'' @ [bs] @ ''1'' else [])
     @ (if Whitelisted g then bs # ''white'' @ [bs] @ ''1'' else [])
     @ (if GameTypeTags g \<noteq> [] then bs # ''gametype'' @ [bs] @ Join (GameTypeTags g) '';''
        else [])
     @ (if GameDataTags g \<noteq> [] then bs # ''gamedata'' @ [bs] @ Join (GameDataTags g) '',''
        else [])
     @ (if GameDataOrTags g \<noteq> []
        then bs # ''gamedataor'' @ [bs] @ Join (GameDataOrTags g) '','' else [])
     @ (if NameMatch g \<noteq> [] then bs # ''name_match'' @ [bs] @ ''*'' @ NameMatch g @ ''*''
        else [])"
  unfolding String_def Let_def emit_append by (simp split del: if_split)

text \<open>Eight fields have no effect on the encoding: the two custom filters and the limit,
  but also five fields of the upstream protocol (\<open>nor\<close>, \<open>nand\<close>, \<open>version_match\<close>,
  \<open>collapse_addr_hash\<close>, \<open>gameaddr\<close>).\<close>

lemma String_ignores:
  "String (g\<lparr>NotOr := a, NotAnd := b, VersionMatch := c, CollapseAddrHash := d, GameAddr := e,
             NoHidden := h, NoDefaultServers := n, Limit := l\<rparr>) = String g"
  unfolding String_def Let_def emit_append
  by (simp split del: if_split cong del: if_weak_cong)

text \<open>
  Claim C1.  The encoding starts with the \<open>appid\<close> segment and carries one segment for
  each optional upstream field that is set.  The code does not do that for every upstream
  field: a filter that sets \<open>VersionMatch\<close> (documented on the struct as
  \<open>\version_match\[version]\<close>) encodes to the \<open>appid\<close> segment alone, while the same value in
  the neighbouring field \<open>NameMatch\<close> is encoded.
\<close>

theorem String_drops_version_match:
  "String (zeroFilter\<lparr>AppID := 108600, VersionMatch := ''41.78.*''\<rparr>)
     = bs # ''appid'' @ [bs] @ ''108600''
   \<and> String (zeroFilter\<lparr>AppID := 108600, NameMatch := ''41.78.*''\<rparr>)
       = bs # ''appid'' @ [bs] @ ''108600'' @ bs # ''name_match'' @ [bs] @ ''*41.78.**''"
  by (simp add: String_def emit_def zeroFilter_def Itoa_def)


section \<open>The disabled client\<close>

text \<open>
  Claim C6.  When the configuration has \<open>Disabled\<close> set, \<open>GetPlayerBans\<close> and
  \<open>GetServerList\<close> return the empty list and no error, whatever their arguments and
  whatever the transport would answer, and leave the world as it was: no request is
  added to the ones already sent.
\<close>

theorem disabled_client:
  "Disabled (config (client w)) \<Longrightarrow>
     GetPlayerBans env steamIDs w = (Inr [], w) \<and> GetServerList env flt w = (Inr [], w)"
  by (simp add: GetPlayerBans_def GetServerList_def)

theorem disabled_client_witness:
  "Disabled (config (client (newWorld ((newConfig testURL)\<lparr>Disabled := True\<rparr>))))
   \<and> GetPlayerBans unreachableEnv [''7656119''] (newWorld ((newConfig testURL)\<lparr>Disabled := True\<rparr>))
       = (Inr [], newWorld ((newConfig testURL)\<lparr>Disabled := True\<rparr>))
   \<and> GetServerList unreachableEnv zeroFilter (newWorld ((newConfig testURL)\<lparr>Disabled := True\<rparr>))
       = (Inr [], newWorld ((newConfig testURL)\<lparr>Disabled := True\<rparr>))
   \<and> requests (newWorld ((newConfig testURL)\<lparr>Disabled := True\<rparr>)) = []"
proof -
  have d: "Disabled (config (client (newWorld ((newConfig testURL)\<lparr>Disabled := True\<rparr>))))"
    by (simp add: newWorld_def NewClient_def SetDefaults_def newConfig_def Let_def)
  show ?thesis
    using d disabled_client [OF d, of unreachableEnv "[''7656119'']" zeroFilter]
    by (simp add: newWorld_def)
qed


section \<open>Requests\<close>

text \<open>What an operation adds to the requests sent: \<open>sendRequest\<close> hands the URI to the
  transport unless \<open>http.NewRequestWithContext\<close> rejects it, and the two operations of an
  enabled client call \<open>sendRequest\<close> once.\<close>

lemma sendRequest_requests:
  "requests (snd (sendRequest env uri w)) =
     (if NewRequest env uri = None then requests w @ [uri] else requests w)"
  by (simp add: sendRequest_def Let_def split: option.splits sum.splits)

lemma sendRequest_client: "client (snd (sendRequest env uri w)) = client w"
  by (simp add: sendRequest_def Let_def split: option.splits sum.splits)

lemma GetServerList_world:
  "\<not> Disabled (config (client w)) \<Longrightarrow>
   snd (GetServerList env flt w) =
     snd (sendRequest env
            (URL (config (client w))
               @ GetServerListURL (Key (config (client w)))
                   (if Limit flt = 0 then DefaultLimit else Limit flt) (String flt)) w)"
  by (simp add: GetServerList_def Let_def split: prod.splits sum.splits)

lemma GetPlayerBans_world:
  "\<not> Disabled (config (client w)) \<Longrightarrow>
   snd (GetPlayerBans env steamIDs w) =
     snd (sendRequest env
            (URL (config (client w))
               @ GetPlayerBansURL (Key (config (client w))) (Join steamIDs '','')) w)"
  by (simp add: GetPlayerBans_def Let_def split: prod.splits sum.splits)

text \<open>
  Claim C8.  On an enabled client, the URI \<open>GetServerList\<close> requests carries as its
  \<open>limit\<close> parameter the filter's \<open>Limit\<close> when that is not zero and 50000 otherwise,
  between the API key and the encoded filter.
\<close>

theorem GetServerList_limit:
  "\<not> Disabled (config (client w)) \<Longrightarrow>
   requests (snd (GetServerList env flt w)) =
     (let uri = URL (config (client w)) @ ''/IGameServersService/GetServerList/v1?key=''
                  @ Key (config (client w)) @ ''&limit=''
                  @ Itoa (if Limit flt = 0 then 50000 else Limit flt)
                  @ ''&filter='' @ String flt
      in if NewRequest env uri = None then requests w @ [uri] else requests w)"
  by (simp add: GetServerList_world sendRequest_requests GetServerListURL_def DefaultLimit_def Let_def)

lemma newWorld_config:
  "config (client (newWorld (newConfig u))) = SetDefaults (newConfig u)"
  by (simp add: newWorld_def NewClient_def Let_def)

lemma SetDefaults_newConfig:
  "u \<noteq> [] \<Longrightarrow> SetDefaults (newConfig u) = (newConfig u)\<lparr> Timeout := DefaultTimeout,
     Transport := \<lparr> Dialer = \<lparr> Dialer_Timeout = DefaultDialerTimeout, Deadline = 0, FallbackDelay = 0, KeepAlive = 0 \<rparr>,
                     TLSHandshakeTimeout = DefaultTLSHandshakeTimeout \<rparr>, Config_Limit := DefaultLimit \<rparr>"
  by (simp add: SetDefaults_def newConfig_def Let_def)

theorem GetServerList_limit_witness:
  "\<not> Disabled (config (client (newWorld (newConfig testURL))))
   \<and> requests (snd (GetServerList testEnv (zeroFilter\<lparr>AppID := 108600\<rparr>) (newWorld (newConfig testURL))))
     = [''http://127.0.0.1:8080/IGameServersService/GetServerList/v1?key=R1jamSsz17LHA9WgDW099YGfCs4fn0m0&limit=50000&filter=''
          @ bs # ''appid'' @ [bs] @ ''108600'']
   \<and> requests (snd (GetServerList testEnv (zeroFilter\<lparr>AppID := 108600, Limit := 25\<rparr>) (newWorld (newConfig testURL))))
     = [''http://127.0.0.1:8080/IGameServersService/GetServerList/v1?key=R1jamSsz17LHA9WgDW099YGfCs4fn0m0&limit=25&filter=''
          @ bs # ''appid'' @ [bs] @ ''108600'']"
proof -
  have e: "\<not> Disabled (config (client (newWorld (newConfig testURL))))"
    by (simp add: newWorld_config SetDefaults_newConfig testURL_def) (simp add: newConfig_def)
  have s1: "String (zeroFilter\<lparr>AppID := 108600\<rparr>) = bs # ''appid'' @ [bs] @ ''108600''"
    by (simp add: String_def emit_def zeroFilter_def Itoa_def)
  have s2: "String (zeroFilter\<lparr>AppID := 108600, Limit := 25\<rparr>) = bs # ''appid'' @ [bs] @ ''108600''"
    by (simp add: String_def emit_def zeroFilter_def Itoa_def)
  have l: "Limit (zeroFilter\<lparr>AppID := 108600\<rparr>) = 0" by (simp add: zeroFilter_def)
  have u: "URL (config (client (newWorld (newConfig testURL)))) = ''http://127.0.0.1:8080''"
    "Key (config (client (newWorld (newConfig testURL)))) = ''R1jamSsz17LHA9WgDW099YGfCs4fn0m0''"
    "requests (newWorld (newConfig testURL)) = []"
    by (simp_all add: newWorld_config SetDefaults_newConfig testURL_def) (simp_all add: newConfig_def newWorld_def)
  show ?thesis
    using e GetServerList_limit [OF e, of testEnv "zeroFilter\<lparr>AppID := 108600\<rparr>"]
      GetServerList_limit [OF e, of testEnv "zeroFilter\<lparr>AppID := 108600, Limit := 25\<rparr>"]
    by (simp add: s1 s2 l u Let_def Itoa_def testEnv_def)
qed


section \<open>Request execution\<close>

text \<open>An error of \<open>sendRequest\<close> is the error of the operation that called it.\<close>

lemma GetServerList_error:
  "\<not> Disabled (config (client w)) \<Longrightarrow>
   fst (sendRequest env
          (URL (config (client w))
             @ GetServerListURL (Key (config (client w)))
                 (if Limit flt = 0 then DefaultLimit else Limit flt) (String flt)) w) = Inl err \<Longrightarrow>
   fst (GetServerList env flt w) = Inl err"
  by (cases "Limit flt = 0") (auto simp add: GetServerList_def Let_def split: prod.splits sum.splits)

lemma GetPlayerBans_error:
  "\<not> Disabled (config (client w)) \<Longrightarrow>
   fst (sendRequest env
          (URL (config (client w))
             @ GetPlayerBansURL (Key (config (client w))) (Join steamIDs '','')) w) = Inl err \<Longrightarrow>
   fst (GetPlayerBans env steamIDs w) = Inl err"
  by (auto simp add: GetPlayerBans_def Let_def split: prod.splits sum.splits)

text \<open>
  Claim C5, as stated: the wrong-status-code error is returned exactly when the status is
  not 2xx.  A response with status 204 is 2xx and is refused all the same.
\<close>

theorem sendRequest_no_content_counterexample:
  "200 \<le> StatusCode \<lparr> StatusCode = 204, Status = ''204 No Content'', Body = Inr [] \<rparr>
   \<and> StatusCode \<lparr> StatusCode = 204, Status = ''204 No Content'', Body = Inr [] \<rparr> < 300
   \<and> Do (testEnv\<lparr> Do := (\<lambda>uri. Inr (Some \<lparr> StatusCode = 204, Status = ''204 No Content'', Body = Inr [] \<rparr>)) \<rparr>) testURL
       = Inr (Some \<lparr> StatusCode = 204, Status = ''204 No Content'', Body = Inr [] \<rparr>)
   \<and> sendRequest (testEnv\<lparr> Do := (\<lambda>uri. Inr (Some \<lparr> StatusCode = 204, Status = ''204 No Content'', Body = Inr [] \<rparr>)) \<rparr>)
         testURL (newWorld (newConfig testURL))
       = (Inl (ErrWrongStatusCode 204 ''204 No Content''),
          (newWorld (newConfig testURL))\<lparr>requests := [testURL]\<rparr>)"
  by (simp add: sendRequest_def testEnv_def StatusOK_def newWorld_def)

text \<open>
  Claim C5, amended.  \<open>sendRequest\<close> compares the status with 200: for a response with any
  other status it fails with the wrong-status-code error that carries the code and the
  status text, and for status 200 it goes on to read the body and returns what the read
  gives.  A nil response gives the empty-response error; an error of the transport, or of
  building the request (in which case nothing is sent), is returned as it is.  Both
  operations of an enabled client return the error \<open>sendRequest\<close> returns.
\<close>

theorem sendRequest_outcomes:
  "(NewRequest env uri = Some err \<longrightarrow> sendRequest env uri w = (Inl err, w))
   \<and> (NewRequest env uri = None \<longrightarrow>
        (Do env uri = Inl err \<longrightarrow>
           sendRequest env uri w = (Inl err, w\<lparr>requests := requests w @ [uri]\<rparr>))
      \<and> (Do env uri = Inr None \<longrightarrow>
           sendRequest env uri w = (Inl ErrEmptyResponse, w\<lparr>requests := requests w @ [uri]\<rparr>))
      \<and> (Do env uri = Inr (Some res) \<longrightarrow> StatusCode res \<noteq> 200 \<longrightarrow>
           sendRequest env uri w
             = (Inl (ErrWrongStatusCode (StatusCode res) (Status res)),
                w\<lparr>requests := requests w @ [uri]\<rparr>))
      \<and> (Do env uri = Inr (Some res) \<longrightarrow> StatusCode res = 200 \<longrightarrow>
           sendRequest env uri w = (Body res, w\<lparr>requests := requests w @ [uri]\<rparr>)))
   \<and> (\<not> Disabled (config (client w)) \<longrightarrow>
        (fst (sendRequest env
               (URL (config (client w))
                  @ GetPlayerBansURL (Key (config (client w))) (Join steamIDs '','')) w) = Inl err
           \<longrightarrow> fst (GetPlayerBans env steamIDs w) = Inl err)
      \<and> (fst (sendRequest env
               (URL (config (client w))
                  @ GetServerListURL (Key (config (client w)))
                      (if Limit flt = 0 then DefaultLimit else Limit flt) (String flt)) w) = Inl err
           \<longrightarrow> fst (GetServerList env flt w) = Inl err))"
proof -
  have "NewRequest env uri = Some err \<longrightarrow> sendRequest env uri w = (Inl err, w)"
    by (simp add: sendRequest_def)
  moreover have "NewRequest env uri = None \<longrightarrow>
        (Do env uri = Inl err \<longrightarrow>
           sendRequest env uri w = (Inl err, w\<lparr>requests := requests w @ [uri]\<rparr>))
      \<and> (Do env uri = Inr None \<longrightarrow>
           sendRequest env uri w = (Inl ErrEmptyResponse, w\<lparr>requests := requests w @ [uri]\<rparr>))
      \<and> (Do env uri = Inr (Some res) \<longrightarrow> StatusCode res \<noteq> 200 \<longrightarrow>
           sendRequest env uri w
             = (Inl (ErrWrongStatusCode (StatusCode res) (Status res)),
                w\<lparr>requests := requests w @ [uri]\<rparr>))
      \<and> (Do env uri = Inr (Some res) \<longrightarrow> StatusCode res = 200 \<longrightarrow>
           sendRequest env uri w = (Body res, w\<lparr>requests := requests w @ [uri]\<rparr>))"
    by (simp add: sendRequest_def Let_def StatusOK_def split: sum.splits)
  ultimately show ?thesis
    using GetPlayerBans_error [of w env steamIDs err] GetServerList_error [of w env flt err]
    by blast
qed

theorem sendRequest_outcomes_witness:
  "sendRequest (statusEnv 404 ''404 Not Found'') testURL (newWorld (newConfig testURL))
     = (Inl (ErrWrongStatusCode 404 ''404 Not Found''),
        (newWorld (newConfig testURL))\<lparr>requests := [testURL]\<rparr>)
   \<and> sendRequest (statusEnv 200 ''200 OK'') testURL (newWorld (newConfig testURL))
     = (Inr ''{...}'', (newWorld (newConfig testURL))\<lparr>requests := [testURL]\<rparr>)
   \<and> sendRequest unreachableEnv testURL (newWorld (newConfig testURL))
     = (Inl (ErrExternal ''contacted''), (newWorld (newConfig testURL))\<lparr>requests := [testURL]\<rparr>)
   \<and> sendRequest (testEnv\<lparr>Do := (\<lambda>uri. Inr None)\<rparr>) testURL (newWorld (newConfig testURL))
     = (Inl ErrEmptyResponse, (newWorld (newConfig testURL))\<lparr>requests := [testURL]\<rparr>)
   \<and> sendRequest (testEnv\<lparr>NewRequest := (\<lambda>uri. Some (ErrExternal ''missing protocol scheme''))\<rparr>)
        '':'' (newWorld (newConfig testURL))
     = (Inl (ErrExternal ''missing protocol scheme''), newWorld (newConfig testURL))"
  using
    sendRequest_outcomes [where env = "statusEnv 404 ''404 Not Found''" and uri = testURL
      and w = "newWorld (newConfig testURL)"
      and res = "\<lparr> StatusCode = 404, Status = ''404 Not Found'', Body = Inr ''{...}'' \<rparr>"]
    sendRequest_outcomes [where env = "statusEnv 200 ''200 OK''" and uri = testURL
      and w = "newWorld (newConfig testURL)"
      and res = "\<lparr> StatusCode = 200, Status = ''200 OK'', Body = Inr ''{...}'' \<rparr>"]
    sendRequest_outcomes [where env = unreachableEnv and uri = testURL
      and err = "ErrExternal ''contacted''" and w = "newWorld (newConfig testURL)"]
    sendRequest_outcomes [where env = "testEnv\<lparr>Do := (\<lambda>uri. Inr None)\<rparr>" and uri = testURL
      and w = "newWorld (newConfig testURL)"]
    sendRequest_outcomes
      [where env = "testEnv\<lparr>NewRequest := (\<lambda>uri. Some (ErrExternal ''missing protocol scheme''))\<rparr>"
       and uri = "'':''" and err = "ErrExternal ''missing protocol scheme''"
       and w = "newWorld (newConfig testURL)"]
  by (simp add: statusEnv_def testEnv_def unreachableEnv_def newWorld_def)


section \<open>Configuration defaults\<close>

text \<open>
  Claim C9.  \<open>SetDefaults\<close> gives \<open>URL\<close>, \<open>Timeout\<close>, \<open>Transport.TLSHandshakeTimeout\<close>,
  \<open>Transport.Dialer.Timeout\<close> and \<open>Limit\<close> their documented default (the vendor endpoint,
  10 s, 5 s, 5 s, 50000) when the field is zero and leaves it alone otherwise; no other
  field changes.  \<open>NewClient\<close> stores the configuration with the defaults applied.
  Afterwards the configuration stays as it is: applying the defaults again changes
  nothing, and \<open>GetPlayerBans\<close> and \<open>GetServerList\<close> return the client they were given.
\<close>

theorem SetDefaults_frame:
  "(URL c = [] \<longrightarrow> URL (SetDefaults c) = ''https://api.steampowered.com'')
   \<and> (URL c \<noteq> [] \<longrightarrow> URL (SetDefaults c) = URL c)
   \<and> (Timeout c = 0 \<longrightarrow> Timeout (SetDefaults c) = 10 * 1000000000)
   \<and> (Timeout c \<noteq> 0 \<longrightarrow> Timeout (SetDefaults c) = Timeout c)
   \<and> (TLSHandshakeTimeout (Transport c) = 0 \<longrightarrow>
        TLSHandshakeTimeout (Transport (SetDefaults c)) = 5 * 1000000000)
   \<and> (TLSHandshakeTimeout (Transport c) \<noteq> 0 \<longrightarrow>
        TLSHandshakeTimeout (Transport (SetDefaults c)) = TLSHandshakeTimeout (Transport c))
   \<and> (Dialer_Timeout (Dialer (Transport c)) = 0 \<longrightarrow>
        Dialer_Timeout (Dialer (Transport (SetDefaults c))) = 5 * 1000000000)
   \<and> (Dialer_Timeout (Dialer (Transport c)) \<noteq> 0 \<longrightarrow>
        Dialer_Timeout (Dialer (Transport (SetDefaults c))) = Dialer_Timeout (Dialer (Transport c)))
   \<and> (Config_Limit c = 0 \<longrightarrow> Config_Limit (SetDefaults c) = 50000)
   \<and> (Config_Limit c \<noteq> 0 \<longrightarrow> Config_Limit (SetDefaults c) = Config_Limit c)
   \<and> Disabled (SetDefaults c) = Disabled c
   \<and> Key (SetDefaults c) = Key c
   \<and> DefaultServerNames (SetDefaults c) = DefaultServerNames c
   \<and> Deadline (Dialer (Transport (SetDefaults c))) = Deadline (Dialer (Transport c))
   \<and> FallbackDelay (Dialer (Transport (SetDefaults c))) = FallbackDelay (Dialer (Transport c))
   \<and> KeepAlive (Dialer (Transport (SetDefaults c))) = KeepAlive (Dialer (Transport c))
   \<and> config (NewClient c) = SetDefaults c
   \<and> SetDefaults (SetDefaults c) = SetDefaults c
   \<and> client (snd (GetPlayerBans env steamIDs w)) = client w
   \<and> client (snd (GetServerList env flt w)) = client w"
proof -
  have fields:
    "URL (SetDefaults c) = (if URL c = [] then DefaultSteamURL else URL c)"
    "Timeout (SetDefaults c) = (if Timeout c = 0 then DefaultTimeout else Timeout c)"
    "TLSHandshakeTimeout (Transport (SetDefaults c))
       = (if TLSHandshakeTimeout (Transport c) = 0 then DefaultTLSHandshakeTimeout
          else TLSHandshakeTimeout (Transport c))"
    "Dialer_Timeout (Dialer (Transport (SetDefaults c)))
       = (if Dialer_Timeout (Dialer (Transport c)) = 0 then DefaultDialerTimeout
          else Dialer_Timeout (Dialer (Transport c)))"
    "Config_Limit (SetDefaults c) = (if Config_Limit c = 0 then DefaultLimit else Config_Limit c)"
    by (simp_all add: SetDefaults_def Let_def)
  have frame:
    "Disabled (SetDefaults c) = Disabled c" "Key (SetDefaults c) = Key c"
    "DefaultServerNames (SetDefaults c) = DefaultServerNames c"
    "Deadline (Dialer (Transport (SetDefaults c))) = Deadline (Dialer (Transport c))"
    "FallbackDelay (Dialer (Transport (SetDefaults c))) = FallbackDelay (Dialer (Transport c))"
    "KeepAlive (Dialer (Transport (SetDefaults c))) = KeepAlive (Dialer (Transport c))"
    by (simp_all add: SetDefaults_def Let_def)
  have fixed: "SetDefaults d = d"
    if "URL d \<noteq> []" "Timeout d \<noteq> 0" "TLSHandshakeTimeout (Transport d) \<noteq> 0"
      "Dialer_Timeout (Dialer (Transport d)) \<noteq> 0" "Config_Limit d \<noteq> 0" for d
    using that by (simp add: SetDefaults_def Let_def)
  have idem: "SetDefaults (SetDefaults c) = SetDefaults c"
    by (rule fixed; simp only: fields;
        simp add: DefaultSteamURL_def DefaultTimeout_def DefaultTLSHandshakeTimeout_def
          DefaultDialerTimeout_def DefaultLimit_def Second_def)
  have new: "config (NewClient c) = SetDefaults c"
    by (simp add: NewClient_def Let_def)
  have ops: "client (snd (GetPlayerBans env steamIDs w)) = client w"
    "client (snd (GetServerList env flt w)) = client w"
  proof -
    show "client (snd (GetPlayerBans env steamIDs w)) = client w"
    proof (cases "Disabled (config (client w))")
      case True
      then show ?thesis by (simp add: GetPlayerBans_def)
    next
      case False
      then show ?thesis by (simp add: GetPlayerBans_world sendRequest_client)
    qed
    show "client (snd (GetServerList env flt w)) = client w"
    proof (cases "Disabled (config (client w))")
      case True
      then show ?thesis by (simp add: GetServerList_def)
    next
      case False
      then show ?thesis by (simp add: GetServerList_world sendRequest_client)
    qed
  qed
  show ?thesis
    unfolding fields frame idem new ops
    by (simp add: DefaultSteamURL_def DefaultTimeout_def
        DefaultTLSHandshakeTimeout_def DefaultDialerTimeout_def DefaultLimit_def Second_def)
qed


theorem SetDefaults_frame_witness:
  "URL (newConfig []) = [] \<and> URL (SetDefaults (newConfig [])) = ''https://api.steampowered.com''
   \<and> URL (newConfig testURL) \<noteq> [] \<and> URL (SetDefaults (newConfig testURL)) = testURL
   \<and> Timeout (newConfig testURL) = 0 \<and> Timeout (SetDefaults (newConfig testURL)) = 10000000000
   \<and> Timeout ((newConfig testURL)\<lparr>Timeout := 3\<rparr>) \<noteq> 0
   \<and> Timeout (SetDefaults ((newConfig testURL)\<lparr>Timeout := 3\<rparr>)) = 3
   \<and> TLSHandshakeTimeout (Transport (SetDefaults (newConfig testURL))) = 5000000000
   \<and> Dialer_Timeout (Dialer (Transport (SetDefaults (newConfig testURL)))) = 5000000000
   \<and> Config_Limit (SetDefaults (newConfig testURL)) = 50000
   \<and> Config_Limit (SetDefaults ((newConfig testURL)\<lparr>Config_Limit := 7\<rparr>)) = 7
   \<and> Key (SetDefaults (newConfig testURL)) = ''R1jamSsz17LHA9WgDW099YGfCs4fn0m0''
   \<and> DefaultServerNames (SetDefaults (newConfig testURL)) = [''My PZ Server'']
   \<and> config (NewClient (newConfig testURL)) = SetDefaults (newConfig testURL)
   \<and> client (snd (GetServerList testEnv zeroFilter (newWorld (newConfig testURL))))
       = NewClient (newConfig testURL)"
  using SetDefaults_frame [where c = "newConfig []"]
    SetDefaults_frame [where c = "newConfig testURL" and env = testEnv and flt = zeroFilter
      and w = "newWorld (newConfig testURL)"]
    SetDefaults_frame [where c = "(newConfig testURL)\<lparr>Timeout := 3\<rparr>"]
    SetDefaults_frame [where c = "(newConfig testURL)\<lparr>Config_Limit := 7\<rparr>"]
  by (simp add: newConfig_def testURL_def newWorld_def)


section \<open>The insertion sort of \<open>sort.Slice\<close>\<close>

text \<open>A swap of two neighbours, and the inner loop as an insertion into the range before
  position \<open>j\<close>.\<close>

lemma swap_adjacent:
  "Suc j < length xs \<Longrightarrow>
   swap xs (Suc j) j = take j xs @ xs ! Suc j # xs ! j # drop (Suc (Suc j)) xs"
proof (induction xs arbitrary: j)
  case Nil
  then show ?case by simp
next
  case (Cons a xs)
  show ?case
  proof (cases j)
    case 0
    with Cons.prems show ?thesis
      by (cases xs) (simp_all add: swap_def)
  next
    case (Suc i)
    with Cons.prems have "Suc i < length xs" by simp
    from Cons.IH [OF this] Suc show ?thesis
      by (simp add: swap_def)
  qed
qed

lemma insertDown_insertLast:
  "j < length xs \<Longrightarrow>
   insertDown lt j xs = insertLast lt (take j xs) (xs ! j) @ drop (Suc j) xs"
proof (induction j arbitrary: xs)
  case 0
  then show ?case
    by (cases xs) (simp_all add: insertLast_def)
next
  case (Suc j)
  from Suc.prems have j: "j < length xs" by simp
  have tk: "take (Suc j) xs = take j xs @ [xs ! j]"
    using j by (simp add: take_Suc_conv_app_nth)
  show ?case
  proof (cases "lt (xs ! Suc j) (xs ! j)")
    case True
    let ?ys = "swap xs (Suc j) j"
    have ys: "?ys = take j xs @ xs ! Suc j # xs ! j # drop (Suc (Suc j)) xs"
      using Suc.prems by (rule swap_adjacent)
    have len: "j < length ?ys" using j by (simp add: swap_def)
    have "length (take j xs) = j" using j by simp
    then have parts: "take j ?ys = take j xs" "?ys ! j = xs ! Suc j"
      "drop (Suc j) ?ys = xs ! j # drop (Suc (Suc j)) xs"
      unfolding ys by (simp_all add: nth_append)
    from True have "insertDown lt (Suc j) xs = insertDown lt j ?ys" by simp
    also have "\<dots> = insertLast lt (take j ?ys) (?ys ! j) @ drop (Suc j) ?ys"
      using len by (rule Suc.IH)
    also have "\<dots> = insertLast lt (take (Suc j) xs) (xs ! Suc j) @ drop (Suc (Suc j)) xs"
      using True by (simp add: parts tk insertLast_def)
    finally show ?thesis .
  next
    case False
    have "xs = take (Suc j) xs @ xs ! Suc j # drop (Suc (Suc j)) xs"
      using Suc.prems by (simp add: id_take_nth_drop [symmetric])
    with False show ?thesis
      by (simp add: tk insertLast_def)
  qed
qed

lemma length_insRev [simp]: "length (insRev lt x r) = Suc (length r)"
  by (induction r) simp_all

lemma length_insertLast [simp]: "length (insertLast lt ys x) = Suc (length ys)"
  by (simp add: insertLast_def)

lemma length_insertionSort_fold [simp]: "length (insertionSort_fold lt xs) = length xs"
  unfolding insertionSort_fold_def by (induction xs rule: rev_induct) simp_all

lemma insertionSort_fold_snoc:
  "insertionSort_fold lt (xs @ [x]) = insertLast lt (insertionSort_fold lt xs) x"
  by (simp add: insertionSort_fold_def)

lemma insertion_loop:
  "k \<le> length xs \<Longrightarrow>
   foldl (\<lambda>ys i. insertDown lt i ys) xs [1 ..< k] = insertionSort_fold lt (take k xs) @ drop k xs"
proof (induction k)
  case 0
  then show ?case by (simp add: insertionSort_fold_def)
next
  case (Suc k)
  then have k: "k < length xs" by simp
  show ?case
  proof (cases "k = 0")
    case True
    with k show ?thesis
      by (cases xs) (simp_all add: insertionSort_fold_def insertLast_def)
  next
    case False
    let ?zs = "insertionSort_fold lt (take k xs) @ drop k xs"
    have len: "length (insertionSort_fold lt (take k xs)) = k" using k by simp
    have parts: "take k ?zs = insertionSort_fold lt (take k xs)" "?zs ! k = xs ! k"
      "drop (Suc k) ?zs = drop (Suc k) xs"
      using k len by (simp_all add: nth_append drop_Suc [of k] drop_tl)
    have "k < length ?zs" using k by simp
    from False have "[1 ..< Suc k] = [1 ..< k] @ [k]" by simp
    then have "foldl (\<lambda>ys i. insertDown lt i ys) xs [1 ..< Suc k] = insertDown lt k ?zs"
      using Suc.IH k by simp
    also have "\<dots> = insertLast lt (take k ?zs) (?zs ! k) @ drop (Suc k) ?zs"
      using \<open>k < length ?zs\<close> by (rule insertDown_insertLast)
    also have "\<dots> = insertionSort_fold lt (take (Suc k) xs) @ drop (Suc k) xs"
      using k by (simp only: parts) (simp add: take_Suc_conv_app_nth insertionSort_fold_snoc)
    finally show ?thesis .
  qed
qed

lemma insertionSort_fold_eq: "insertionSort lt xs = insertionSort_fold lt xs"
  using insertion_loop [of "length xs" xs lt] by (simp add: insertionSort_def)

text \<open>The inner loop at a position given as a numeral.\<close>

lemma insertDown_step:
  "0 < j \<Longrightarrow> insertDown lt j xs =
     (if lt (xs ! j) (xs ! (j - 1)) then insertDown lt (j - 1) (swap xs j (j - 1)) else xs)"
  by (cases j) simp_all

text \<open>The insertion sort rearranges its input, puts the player counts in descending
  order, and keeps the servers of one player count in the order it found them.\<close>

lemma mset_insRev [simp]: "mset (insRev lt x r) = add_mset x (mset r)"
  by (induction r) simp_all

lemma mset_insertLast [simp]: "mset (insertLast lt ys x) = add_mset x (mset ys)"
  by (simp add: insertLast_def)

lemma mset_insertionSort [simp]: "mset (insertionSort lt xs) = mset xs"
  unfolding insertionSort_fold_eq insertionSort_fold_def
  by (induction xs rule: rev_induct) simp_all

lemma set_insRev [simp]: "set (insRev lt x r) = insert x (set r)"
  by (induction r) auto

text \<open>Read backwards, a descending range is ascending.\<close>

lemma insRev_ascending:
  "sorted_wrt (\<lambda>a b. Players a \<le> Players b) r \<Longrightarrow>
   sorted_wrt (\<lambda>a b. Players a \<le> Players b) (insRev playersLess x r)"
  by (induction r) (auto simp add: playersLess_def)

lemma descending_rev:
  "descending (rev r) = sorted_wrt (\<lambda>a b. Players a \<le> Players b) r"
  by (simp add: descending_def sorted_wrt_rev)

lemma insertLast_descending:
  "descending ys \<Longrightarrow> descending (insertLast playersLess ys x)"
  using insRev_ascending [of "rev ys" x]
  by (simp add: insertLast_def descending_rev) (simp add: descending_rev [symmetric])

lemma insertionSort_descending: "descending (insertionSort playersLess xs)"
  unfolding insertionSort_fold_eq
proof (induction xs rule: rev_induct)
  case Nil
  show ?case by (simp add: insertionSort_fold_def descending_def)
next
  case (snoc x xs)
  then show ?case by (simp add: insertionSort_fold_snoc insertLast_descending)
qed

lemma insRev_ties:
  "filter (\<lambda>s. Players s = n) (insRev playersLess x r)
     = filter (\<lambda>s. Players s = n) (x # r)"
  by (induction r) (auto simp add: playersLess_def)

lemma insertLast_ties:
  "filter (\<lambda>s. Players s = n) (insertLast playersLess ys x)
     = filter (\<lambda>s. Players s = n) (ys @ [x])"
  by (simp add: insertLast_def rev_filter [symmetric] insRev_ties)

lemma insertionSort_keepsTies: "keepsTies xs (insertionSort playersLess xs)"
  unfolding insertionSort_fold_eq keepsTies_def
proof (induction xs rule: rev_induct)
  case Nil
  show ?case by (simp add: insertionSort_fold_def)
next
  case (snoc x xs)
  then show ?case by (simp add: insertionSort_fold_snoc insertLast_ties)
qed

lemma sortsBy_descending:
  "sortsBy sortLong playersLess \<Longrightarrow> descending (sortLong playersLess xs)"
  by (simp add: sortsBy_def descending_def playersLess_def not_less)

lemma sort_Slice_descending:
  "sortsBy sortLong playersLess \<Longrightarrow> descending (sort_Slice sortLong playersLess xs)"
  by (simp add: sort_Slice_def insertionSort_descending sortsBy_descending)

lemma sort_Slice_mset:
  "sortsBy sortLong lt \<Longrightarrow> mset (sort_Slice sortLong lt xs) = mset xs"
  by (simp add: sort_Slice_def sortsBy_def)

lemma sort_Slice_set:
  "sortsBy sortLong lt \<Longrightarrow> set (sort_Slice sortLong lt xs) = set xs"
  using sort_Slice_mset [of sortLong lt xs] by (metis set_mset_mset)

lemma sort_Slice_short:
  "length xs \<le> 12 \<Longrightarrow> sort_Slice sortLong lt xs = insertionSort lt xs"
  by (simp add: sort_Slice_def maxInsertion_def)

lemma mset_swap_list: "i < length xs \<Longrightarrow> j < length xs \<Longrightarrow> mset (swap xs i j) = mset xs"
  unfolding swap_def by (simp add: mset_swap)

lemma descending_append:
  "descending (xs @ ys) = (descending xs \<and> descending ys
     \<and> (\<forall>a \<in> set xs. \<forall>b \<in> set ys. Players b \<le> Players a))"
  by (simp add: descending_def sorted_wrt_append)

lemma descending_Cons:
  "descending (x # ys) = ((\<forall>b \<in> set ys. Players b \<le> Players x) \<and> descending ys)"
  by (simp add: descending_def)

lemma set_insertionSort [simp]: "set (insertionSort lt xs) = set xs"
  using mset_insertionSort [of lt xs] by (metis set_mset_mset)

lemma descending_iff:
  "descending xs = sorted_wrt (\<lambda>a b. \<not> playersLess b a) xs"
  by (simp add: descending_def playersLess_def not_less)

lemma pivotSort_mset: "mset (pivotSort lt xs) = mset xs"
proof (cases "xs = []")
  case True
  then show ?thesis by (simp add: pivotSort_def)
next
  case False
  let ?ys = "swap xs 0 (length xs div 4 * 2)"
  from False have k: "length xs div 4 * 2 < length xs" "0 < length xs"
    by (cases xs; simp)+
  then have m: "mset ?ys = mset xs" by (simp add: mset_swap_list)
  from False have "?ys \<noteq> []" by (simp add: swap_def)
  then have "mset ?ys = add_mset (hd ?ys) (mset (tl ?ys))"
    by (cases ?ys) simp_all
  with False m show ?thesis
    by (simp add: pivotSort_def Let_def)
qed

lemma pivotSort_descending: "descending (pivotSort playersLess xs)"
proof (cases "xs = []")
  case True
  then show ?thesis by (simp add: pivotSort_def descending_def)
next
  case False
  then show ?thesis
    by (auto simp add: pivotSort_def Let_def descending_append descending_Cons
        insertionSort_descending playersLess_def)
qed

lemma sortsBy_pivotSort: "sortsBy pivotSort playersLess"
  using pivotSort_descending
  by (simp add: sortsBy_def pivotSort_mset descending_iff)

lemma GetServerList_result:
  "fst (GetServerList env flt w) = Inr out \<Longrightarrow>
   out = [] \<or> (\<exists>servers. out = filterServers (SortLong env) (config (client w)) servers flt)"
  by (auto simp add: GetServerList_def Let_def split: if_splits prod.splits sum.splits)


section \<open>Sorting the servers\<close>

text \<open>
  Claim C2, amended.  Provided \<open>sort.Slice\<close> keeps its documented contract on slices of
  more than twelve elements, the list \<open>filterServers\<close> returns, and so every list
  \<open>GetServerList\<close> returns, is in descending order of player count and is a rearrangement
  of the servers left by the exclusion step.  When at most twelve servers are left by the
  exclusion step, servers with equal player counts keep the relative order they had after
  it.  (The example of the claim, five servers of which one is excluded, is the witness.)
\<close>

theorem filterServers_sorted:
  "sortsBy (SortLong env) playersLess \<Longrightarrow>
     descending (filterServers (SortLong env) cfg servers flt)
   \<and> mset (filterServers (SortLong env) cfg servers flt) = mset (excludeServers cfg servers flt)
   \<and> (length (excludeServers cfg servers flt) \<le> 12 \<longrightarrow>
        keepsTies (excludeServers cfg servers flt)
          (filterServers (SortLong env) cfg servers flt))
   \<and> (\<forall>out. fst (GetServerList env flt w) = Inr out \<longrightarrow> descending out)"
proof -
  assume c: "sortsBy (SortLong env) playersLess"
  have d: "descending (filterServers (SortLong env) cfg' servers' flt)" for cfg' servers'
    using c by (simp add: filterServers_def sort_Slice_descending)
  have "descending out" if "fst (GetServerList env flt w) = Inr out" for out
    using GetServerList_result [OF that] d by (auto simp add: descending_def)
  moreover have "keepsTies (excludeServers cfg servers flt)
      (filterServers (SortLong env) cfg servers flt)"
    if "length (excludeServers cfg servers flt) \<le> 12"
    using that by (simp add: filterServers_def sort_Slice_short insertionSort_keepsTies)
  moreover have "mset (filterServers (SortLong env) cfg servers flt)
      = mset (excludeServers cfg servers flt)"
    using c by (simp add: filterServers_def sort_Slice_mset)
  ultimately show ?thesis using d by blast
qed

lemma players_fixture [simp]:
  "Players server1 = 2" "Players server2 = 0" "Players server3 = 9" "Players server4 = 13"
  "Players server5 = 2"
  by (simp_all add: server1_def server2_def server3_def server4_def server5_def)

lemma example_excluded:
  "excludeServers ((newConfig testURL)\<lparr>DefaultServerNames := [''Super Server'']\<rparr>) testServers
     (zeroFilter\<lparr>NoDefaultServers := True\<rparr>) = [server1, server3, server4, server5]"
  by (simp add: excludeServers_def zeroFilter_def removeFilteredServers_def collectRemoveAddrs_def
      markServer_def markDefaultNames_def testServers_def newConfig_def
      server1_def server2_def server3_def server4_def server5_def)

theorem filterServers_sorted_witness:
  "sortsBy (SortLong testEnv) playersLess
   \<and> map Players testServers = [2, 0, 9, 13, 2]
   \<and> excludeServers ((newConfig testURL)\<lparr>DefaultServerNames := [''Super Server'']\<rparr>) testServers
        (zeroFilter\<lparr>NoDefaultServers := True\<rparr>) = [server1, server3, server4, server5]
   \<and> filterServers (SortLong testEnv) ((newConfig testURL)\<lparr>DefaultServerNames := [''Super Server'']\<rparr>)
        testServers (zeroFilter\<lparr>NoDefaultServers := True\<rparr>) = [server4, server3, server1, server5]
   \<and> descending [server4, server3, server1, server5]
   \<and> keepsTies [server1, server3, server4, server5] [server4, server3, server1, server5]"
proof -
  have c: "sortsBy (SortLong testEnv) playersLess"
    by (simp add: testEnv_def sortsBy_pivotSort)
  have r: "filterServers (SortLong testEnv) ((newConfig testURL)\<lparr>DefaultServerNames := [''Super Server'']\<rparr>)
        testServers (zeroFilter\<lparr>NoDefaultServers := True\<rparr>) = [server4, server3, server1, server5]"
    unfolding filterServers_def example_excluded
    by (simp add: sort_Slice_def maxInsertion_def insertionSort_def insertDown_step swap_def
        playersLess_def)
  show ?thesis
    using c filterServers_sorted [OF c, where cfg = "(newConfig testURL)\<lparr>DefaultServerNames := [''Super Server'']\<rparr>"
        and servers = testServers and flt = "zeroFilter\<lparr>NoDefaultServers := True\<rparr>"]
    by (simp add: r example_excluded) (simp add: testServers_def)
qed

text \<open>The thirteen servers, sorted by \<^const>\<open>pivotSort\<close>.\<close>

lemma plainServer_fields [simp]: "Players (plainServer a n) = n" "Addr (plainServer a n) = a"
  by (simp_all add: plainServer_def)

lemma plainServer_eq: "(plainServer a n = plainServer b m) = (a = b \<and> n = m)"
  by (auto simp add: plainServer_def)

lemma thirteen_sorted: "pivotSort playersLess thirteenServers = thirteenSorted"
  by (simp add: pivotSort_def thirteenServers_def thirteenSorted_def swap_def Let_def
      playersLess_def insertionSort_def insertDown_step)

text \<open>
  Claim C2, as stated: for every input, servers with equal player counts keep their
  relative order.  \<open>sort.Slice\<close> does not promise that, and thirteen servers are enough
  for a sort that keeps the contract to return the two servers with one player in the
  opposite order.
\<close>

theorem stable_sort_counterexample:
  "sortsBy (SortLong testEnv) playersLess
   \<and> map Players thirteenServers = [1, 1, 2, 2, 2, 2, 2, 2, 2, 2, 2, 2, 2]
   \<and> fst (GetServerList (testEnv\<lparr>UnmarshalServers := (\<lambda>body. Inr thirteenServers)\<rparr>) zeroFilter
            (newWorld (newConfig testURL))) = Inr thirteenSorted
   \<and> filter (\<lambda>s. Players s = 1) thirteenServers
       = [plainServer ''10.0.0.1'' 1, plainServer ''10.0.0.2'' 1]
   \<and> filter (\<lambda>s. Players s = 1) thirteenSorted
       = [plainServer ''10.0.0.2'' 1, plainServer ''10.0.0.1'' 1]
   \<and> \<not> keepsTies (excludeServers (config (client (newWorld (newConfig testURL))))
                      thirteenServers zeroFilter) thirteenSorted"
proof -
  have c: "sortsBy (SortLong testEnv) playersLess"
    by (simp add: testEnv_def sortsBy_pivotSort)
  have x: "excludeServers cfg thirteenServers zeroFilter = thirteenServers" for cfg
    by (simp add: excludeServers_def zeroFilter_def)
  have l: "length thirteenServers = 13" by (simp add: thirteenServers_def)
  have f: "filterServers pivotSort cfg thirteenServers zeroFilter = thirteenSorted" for cfg
    by (simp add: filterServers_def x sort_Slice_def maxInsertion_def l thirteen_sorted)
  have e: "\<not> Disabled (config (client (newWorld (newConfig testURL))))"
    by (simp add: newWorld_config SetDefaults_newConfig testURL_def) (simp add: newConfig_def)
  have g: "fst (GetServerList (testEnv\<lparr>UnmarshalServers := (\<lambda>body. Inr thirteenServers)\<rparr>) zeroFilter
            (newWorld (newConfig testURL))) = Inr thirteenSorted"
    using e by (simp add: GetServerList_def sendRequest_def testEnv_def StatusOK_def Let_def f)
  have t1: "filter (\<lambda>s. Players s = 1) thirteenServers
       = [plainServer ''10.0.0.1'' 1, plainServer ''10.0.0.2'' 1]"
    by (simp add: thirteenServers_def)
  have t2: "filter (\<lambda>s. Players s = 1) thirteenSorted
       = [plainServer ''10.0.0.2'' 1, plainServer ''10.0.0.1'' 1]"
    by (simp add: thirteenSorted_def)
  have "\<not> keepsTies thirteenServers thirteenSorted"
  proof
    assume "keepsTies thirteenServers thirteenSorted"
    then have "filter (\<lambda>s. Players s = 1) thirteenSorted
        = filter (\<lambda>s. Players s = 1) thirteenServers"
      by (simp add: keepsTies_def)
    then show False
      by (simp add: t1 t2 plainServer_eq)
  qed
  then show ?thesis
    using c g t1 t2 by (simp add: x) (simp add: thirteenServers_def)
qed


section \<open>The exclusion step\<close>

text \<open>\<open>strings.Contains\<close> holds exactly of the strings that have the substring as a
  contiguous part.\<close>

lemma Contains_sublist: "Contains s sub = sublist sub s"
  by (induction s) (simp_all add: sublist_Cons_right)

lemma removeFilteredServers_fold:
  "foldl (\<lambda>result s. if addrs (Addr s) = None then result @ [s] else result) acc servers
     = acc @ filter (\<lambda>s. addrs (Addr s) = None) servers"
  by (induction servers arbitrary: acc) simp_all

lemma removeFilteredServers_filter:
  "removeFilteredServers servers addrs = filter (\<lambda>s. Addr s \<notin> dom addrs) servers"
  by (simp add: removeFilteredServers_def removeFilteredServers_fold domIff)

lemma dom_markDefaultNames:
  "dom (markDefaultNames names server m)
     = dom m \<union> (if Name server \<in> set names then {Addr server} else {})"
  unfolding markDefaultNames_def
  by (induction names arbitrary: m) auto

lemma dom_markServer:
  "dom (markServer cfg flt m server)
     = dom m \<union> (if (NoHidden flt \<and> sublist ''hidden'' (GameType server))
                      \<or> (NoDefaultServers flt \<and> Name server \<in> set (DefaultServerNames cfg))
                   then {Addr server} else {})"
  by (simp add: markServer_def dom_markDefaultNames Contains_sublist)

lemma dom_foldl_markServer:
  "dom (foldl (markServer cfg flt) m servers)
     = dom m \<union> Addr ` {s \<in> set servers.
          (NoHidden flt \<and> sublist ''hidden'' (GameType s))
          \<or> (NoDefaultServers flt \<and> Name s \<in> set (DefaultServerNames cfg))}"
proof (induction servers arbitrary: m)
  case Nil
  show ?case by simp
next
  case (Cons s servers)
  show ?case
    unfolding foldl_Cons Cons.IH dom_markServer by auto
qed

lemma dom_collectRemoveAddrs:
  "dom (collectRemoveAddrs cfg flt servers)
     = Addr ` {s \<in> set servers.
          (NoHidden flt \<and> sublist ''hidden'' (GameType s))
          \<or> (NoDefaultServers flt \<and> Name s \<in> set (DefaultServerNames cfg))}"
  by (simp add: collectRemoveAddrs_def dom_foldl_markServer)

lemma excludeServers_filter:
  "excludeServers cfg servers flt
     = filter (\<lambda>s. Addr s \<notin> Addr ` {t \<in> set servers.
          (NoHidden flt \<and> sublist ''hidden'' (GameType t))
          \<or> (NoDefaultServers flt \<and> Name t \<in> set (DefaultServerNames cfg))}) servers"
proof (cases "NoHidden flt \<or> NoDefaultServers flt")
  case True
  then show ?thesis
    by (simp add: excludeServers_def removeFilteredServers_filter dom_collectRemoveAddrs)
next
  case False
  then show ?thesis by (simp add: excludeServers_def)
qed

text \<open>The fields of the test servers that the exclusion step reads.\<close>

lemma fixture_fields [simp]:
  "Addr server1 = ''127.0.0.1:16261''" "Addr server2 = ''127.0.0.2:16267''"
  "Addr server3 = ''127.0.0.3:16260''" "Addr server4 = ''127.0.0.4:16261''"
  "Addr server5 = ''127.0.0.5:16261''"
  "Name server1 = ''My PZ Server''" "Name server2 = ''Super Server''"
  "Name server3 = ''Best Server''" "Name server4 = ''My PZ Server''"
  "Name server5 = ''My PZ Server''"
  "GameType server1 = ''hidden;hosted''" "GameType server2 = []" "GameType server3 = []"
  "GameType server4 = ''hidden;hosted''" "GameType server5 = ''hidden;hosted''"
  by (simp_all add: server1_def server2_def server3_def server4_def server5_def)

text \<open>
  Claim C3.  When \<open>NoHidden\<close> or \<open>NoDefaultServers\<close> is set, the addresses collected for
  exclusion are exactly the addresses of the servers that match: those whose \<open>GameType\<close>
  contains \<open>hidden\<close> when \<open>NoHidden\<close> is set, and those whose \<open>Name\<close> is one of the configured
  default names when \<open>NoDefaultServers\<close> is set.  The exclusion step keeps exactly the
  servers whose address was not collected, in the order of the input, and the sort is
  applied to that list.
\<close>

theorem excludeServers_exact:
  "NoHidden flt \<or> NoDefaultServers flt \<Longrightarrow>
     dom (collectRemoveAddrs cfg flt servers)
       = Addr ` {s \<in> set servers.
            (NoHidden flt \<and> sublist ''hidden'' (GameType s))
            \<or> (NoDefaultServers flt \<and> Name s \<in> set (DefaultServerNames cfg))}
   \<and> excludeServers cfg servers flt
       = filter (\<lambda>s. Addr s \<notin> dom (collectRemoveAddrs cfg flt servers)) servers
   \<and> filterServers sortLong cfg servers flt
       = sort_Slice sortLong playersLess
           (filter (\<lambda>s. Addr s \<notin> dom (collectRemoveAddrs cfg flt servers)) servers)"
  by (simp add: filterServers_def excludeServers_filter dom_collectRemoveAddrs)

theorem excludeServers_exact_witness:
  "NoDefaultServers (zeroFilter\<lparr>NoDefaultServers := True\<rparr>)
   \<and> dom (collectRemoveAddrs (newConfig testURL) (zeroFilter\<lparr>NoDefaultServers := True\<rparr>) testServers)
       = {''127.0.0.1:16261'', ''127.0.0.4:16261'', ''127.0.0.5:16261''}
   \<and> excludeServers (newConfig testURL) testServers (zeroFilter\<lparr>NoDefaultServers := True\<rparr>)
       = [server2, server3]
   \<and> filterServers (SortLong testEnv) (newConfig testURL) testServers
         (zeroFilter\<lparr>NoDefaultServers := True\<rparr>) = [server3, server2]
   \<and> NoHidden (zeroFilter\<lparr>NoHidden := True\<rparr>)
   \<and> dom (collectRemoveAddrs (newConfig testURL) (zeroFilter\<lparr>NoHidden := True\<rparr>) testServers)
       = {''127.0.0.1:16261'', ''127.0.0.4:16261'', ''127.0.0.5:16261''}
   \<and> excludeServers (newConfig testURL) testServers (zeroFilter\<lparr>NoHidden := True\<rparr>)
       = [server2, server3]"
proof -
  have n: "NoHidden (zeroFilter\<lparr>NoDefaultServers := True\<rparr>)
      \<or> NoDefaultServers (zeroFilter\<lparr>NoDefaultServers := True\<rparr>)" by simp
  have h: "NoHidden (zeroFilter\<lparr>NoHidden := True\<rparr>)
      \<or> NoDefaultServers (zeroFilter\<lparr>NoHidden := True\<rparr>)" by simp
  have d1: "dom (collectRemoveAddrs (newConfig testURL) (zeroFilter\<lparr>NoDefaultServers := True\<rparr>) testServers)
       = {''127.0.0.1:16261'', ''127.0.0.4:16261'', ''127.0.0.5:16261''}"
    by (auto simp add: collectRemoveAddrs_def markServer_def markDefaultNames_def testServers_def
        newConfig_def zeroFilter_def)
  have d2: "dom (collectRemoveAddrs (newConfig testURL) (zeroFilter\<lparr>NoHidden := True\<rparr>) testServers)
       = {''127.0.0.1:16261'', ''127.0.0.4:16261'', ''127.0.0.5:16261''}"
    by (auto simp add: collectRemoveAddrs_def markServer_def markDefaultNames_def testServers_def
        newConfig_def zeroFilter_def)
  have s: "sort_Slice sortLong playersLess [server2, server3] = [server3, server2]" for sortLong
    by (simp add: sort_Slice_def maxInsertion_def insertionSort_def insertDown_step swap_def
        playersLess_def)
  note e1 = excludeServers_exact [OF n, of "newConfig testURL" testServers "SortLong testEnv"]
  note e2 = excludeServers_exact [OF h, of "newConfig testURL" testServers "SortLong testEnv"]
  have x1: "excludeServers (newConfig testURL) testServers (zeroFilter\<lparr>NoDefaultServers := True\<rparr>)
       = [server2, server3]"
    unfolding e1 [THEN conjunct2, THEN conjunct1] d1 by (simp add: testServers_def)
  have x2: "excludeServers (newConfig testURL) testServers (zeroFilter\<lparr>NoHidden := True\<rparr>)
       = [server2, server3]"
    unfolding e2 [THEN conjunct2, THEN conjunct1] d2 by (simp add: testServers_def)
  have f1: "filterServers (SortLong testEnv) (newConfig testURL) testServers
         (zeroFilter\<lparr>NoDefaultServers := True\<rparr>) = [server3, server2]"
    unfolding e1 [THEN conjunct2, THEN conjunct2] d1 by (simp add: testServers_def s)
  show ?thesis
    by (simp add: d1 d2 x1 x2 f1)
qed


section \<open>The early exit\<close>

text \<open>Marking an address that is marked already changes nothing, so the comparisons
  after the first matching name have no effect.\<close>

lemma mark_again:
  "m k = Some True \<Longrightarrow> foldl (\<lambda>m name. if P name then m(k \<mapsto> True) else m) m names = m"
  by (induction names) (simp_all add: map_upd_triv)

lemma markDefaultNames_marked:
  "m (Addr server) = Some True \<Longrightarrow> markDefaultNames names server m = m"
  unfolding markDefaultNames_def by (rule mark_again)

lemma markDefaultNames_break_eq:
  "markDefaultNames names server m = markDefaultNames_break names server m"
proof (induction names)
  case Nil
  show ?case by (simp add: markDefaultNames_def)
next
  case (Cons name names)
  show ?case
  proof (cases "Name server = name")
    case True
    have "markDefaultNames (name # names) server m
        = markDefaultNames names server (m(Addr server \<mapsto> True))"
      using True by (simp add: markDefaultNames_def)
    also have "\<dots> = m(Addr server \<mapsto> True)"
      by (rule markDefaultNames_marked) simp
    finally show ?thesis using True by simp
  next
    case False
    have "markDefaultNames (name # names) server m = markDefaultNames names server m"
      using False by (simp add: markDefaultNames_def)
    with Cons False show ?thesis by simp
  qed
qed

lemma markServer_break_eq: "markServer cfg flt = markServer_break cfg flt"
  by (intro ext) (simp add: markServer_def markServer_break_def markDefaultNames_break_eq)

text \<open>
  Claim C7.  The custom-filter pass of the source, whose loop over the default names goes
  on after a match, collects the same addresses and returns the same list as the variant
  that leaves the loop at the first match.
\<close>

theorem early_exit_equivalent:
  "collectRemoveAddrs cfg flt servers = collectRemoveAddrs_break cfg flt servers
   \<and> filterServers sortLong cfg servers flt = filterServers_break sortLong cfg servers flt"
  by (simp add: collectRemoveAddrs_def collectRemoveAddrs_break_def markServer_break_eq
      filterServers_def filterServers_break_def excludeServers_def)

theorem early_exit_equivalent_witness:
  "collectRemoveAddrs ((newConfig testURL)\<lparr>DefaultServerNames := [''My PZ Server'', ''My PZ Server'']\<rparr>)
       (zeroFilter\<lparr>NoDefaultServers := True\<rparr>) testServers
     = collectRemoveAddrs_break ((newConfig testURL)\<lparr>DefaultServerNames := [''My PZ Server'', ''My PZ Server'']\<rparr>)
       (zeroFilter\<lparr>NoDefaultServers := True\<rparr>) testServers
   \<and> filterServers_break (SortLong testEnv) (newConfig testURL) testServers
         (zeroFilter\<lparr>NoDefaultServers := True\<rparr>) = [server3, server2]"
proof -
  have "filterServers (SortLong testEnv) (newConfig testURL) testServers
         (zeroFilter\<lparr>NoDefaultServers := True\<rparr>) = [server3, server2]"
    by (simp add: filterServers_def excludeServers_def removeFilteredServers_def
        collectRemoveAddrs_def markServer_def markDefaultNames_def testServers_def
        newConfig_def zeroFilter_def sort_Slice_def maxInsertion_def insertionSort_def
        insertDown_step swap_def playersLess_def)
  then show ?thesis
    using early_exit_equivalent [of "(newConfig testURL)\<lparr>DefaultServerNames := [''My PZ Server'', ''My PZ Server'']\<rparr>"
        "zeroFilter\<lparr>NoDefaultServers := True\<rparr>" testServers "SortLong testEnv"]
      early_exit_equivalent [of "newConfig testURL"
        "zeroFilter\<lparr>NoDefaultServers := True\<rparr>" testServers "SortLong testEnv"]
    by simp
qed


section \<open>Exclusion is by address\<close>

text \<open>
  Claim C10.  Exclusion goes by address.  If a server of the input matches a filter that
  is set, every server of the input with the same address is absent from the result,
  whether it matches or not; and of two servers of the input with the same address,
  either both are in the result or neither is.  (The sort is assumed to keep the
  documented contract of \<open>sort.Slice\<close>.)
\<close>

theorem exclusion_by_address:
  "sortsBy sortLong playersLess \<Longrightarrow> s \<in> set servers \<Longrightarrow> t \<in> set servers \<Longrightarrow>
   Addr s = Addr t \<Longrightarrow>
     ((NoHidden flt \<and> sublist ''hidden'' (GameType s))
        \<or> (NoDefaultServers flt \<and> Name s \<in> set (DefaultServerNames cfg))
      \<longrightarrow> t \<notin> set (filterServers sortLong cfg servers flt))
   \<and> (s \<in> set (filterServers sortLong cfg servers flt)
        \<longleftrightarrow> t \<in> set (filterServers sortLong cfg servers flt))"
proof -
  assume c: "sortsBy sortLong playersLess" and s: "s \<in> set servers" and t: "t \<in> set servers"
    and a: "Addr s = Addr t"
  have m: "set (filterServers sortLong cfg servers flt) = set (excludeServers cfg servers flt)"
    using c by (simp add: filterServers_def sort_Slice_set)
  let ?M = "{u \<in> set servers.
      (NoHidden flt \<and> sublist ''hidden'' (GameType u))
      \<or> (NoDefaultServers flt \<and> Name u \<in> set (DefaultServerNames cfg))}"
  have x: "set (excludeServers cfg servers flt) = {u \<in> set servers. Addr u \<notin> Addr ` ?M}"
    unfolding excludeServers_filter by simp
  have "Addr t \<in> Addr ` ?M"
    if "(NoHidden flt \<and> sublist ''hidden'' (GameType s))
        \<or> (NoDefaultServers flt \<and> Name s \<in> set (DefaultServerNames cfg))"
  proof -
    from that s have "s \<in> ?M" by simp
    then have "Addr s \<in> Addr ` ?M" by (rule imageI)
    with a show ?thesis by simp
  qed
  then show ?thesis
    unfolding m x using s t a by simp
qed

theorem exclusion_by_address_witness:
  "sortsBy (SortLong testEnv) playersLess
   \<and> sublist ''hidden'' (GameType ((plainServer ''10.0.0.1'' 5)\<lparr>GameType := ''hidden;hosted''\<rparr>))
   \<and> \<not> sublist ''hidden'' (GameType (plainServer ''10.0.0.1'' 7))
   \<and> Addr ((plainServer ''10.0.0.1'' 5)\<lparr>GameType := ''hidden;hosted''\<rparr>) = Addr (plainServer ''10.0.0.1'' 7)
   \<and> plainServer ''10.0.0.1'' 7
        \<notin> set (filterServers (SortLong testEnv) (newConfig testURL)
                 [(plainServer ''10.0.0.1'' 5)\<lparr>GameType := ''hidden;hosted''\<rparr>,
                  plainServer ''10.0.0.1'' 7, plainServer ''10.0.0.2'' 1]
                 (zeroFilter\<lparr>NoHidden := True\<rparr>))
   \<and> filterServers (SortLong testEnv) (newConfig testURL)
        [(plainServer ''10.0.0.1'' 5)\<lparr>GameType := ''hidden;hosted''\<rparr>,
         plainServer ''10.0.0.1'' 7, plainServer ''10.0.0.2'' 1]
        (zeroFilter\<lparr>NoHidden := True\<rparr>) = [plainServer ''10.0.0.2'' 1]"
proof -
  have c: "sortsBy (SortLong testEnv) playersLess"
    by (simp add: testEnv_def sortsBy_pivotSort)
  have g: "GameType (plainServer a n) = []" for a n by (simp add: plainServer_def)
  have h: "sublist ''hidden'' ''hidden;hosted''"
    unfolding Contains_sublist [symmetric] by simp
  have r: "filterServers (SortLong testEnv) (newConfig testURL)
        [(plainServer ''10.0.0.1'' 5)\<lparr>GameType := ''hidden;hosted''\<rparr>,
         plainServer ''10.0.0.1'' 7, plainServer ''10.0.0.2'' 1]
        (zeroFilter\<lparr>NoHidden := True\<rparr>) = [plainServer ''10.0.0.2'' 1]"
    by (simp add: filterServers_def excludeServers_def removeFilteredServers_def
        collectRemoveAddrs_def markServer_def markDefaultNames_def g
        newConfig_def zeroFilter_def sort_Slice_def maxInsertion_def insertionSort_def)
  show ?thesis
    using c h exclusion_by_address [OF c, of "(plainServer ''10.0.0.1'' 5)\<lparr>GameType := ''hidden;hosted''\<rparr>"
        "[(plainServer ''10.0.0.1'' 5)\<lparr>GameType := ''hidden;hosted''\<rparr>,
         plainServer ''10.0.0.1'' 7, plainServer ''10.0.0.2'' 1]" "plainServer ''10.0.0.1'' 7"
        "zeroFilter\<lparr>NoHidden := True\<rparr>" "newConfig testURL"]
    by (simp add: g r)
qed


section \<open>The missing application identifier\<close>

text \<open>
  Claim C4, as stated: with a zero \<open>AppID\<close>, \<open>GetServerList\<close> fails with the
  required-parameter error before any request is sent.  In the first case of
  \<open>TestClient_GetServerList\<close> the filter is empty, and the operation sends its request,
  with the filter \<open>\appid\0\<close>, and returns the five servers.
\<close>

theorem GetServerList_zero_appid_counterexample:
  "AppID zeroFilter = 0
   \<and> Validate zeroFilter = Some (ErrRequiredParam ''appid'')
   \<and> GetServerList testEnv zeroFilter (newWorld (newConfig testURL))
       = (Inr [server4, server3, server1, server5, server2],
          \<lparr> client = NewClient (newConfig testURL),
            requests = [''http://127.0.0.1:8080/IGameServersService/GetServerList/v1?key=R1jamSsz17LHA9WgDW099YGfCs4fn0m0&limit=50000&filter=''
                          @ bs # ''appid'' @ [bs] @ ''0''] \<rparr>)"
proof -
  have e: "\<not> Disabled (config (client (newWorld (newConfig testURL))))"
    by (simp add: newWorld_config SetDefaults_newConfig testURL_def) (simp add: newConfig_def)
  have u: "URL (config (client (newWorld (newConfig testURL)))) = ''http://127.0.0.1:8080''"
    "Key (config (client (newWorld (newConfig testURL)))) = ''R1jamSsz17LHA9WgDW099YGfCs4fn0m0''"
    by (simp_all add: newWorld_config SetDefaults_newConfig testURL_def) (simp_all add: newConfig_def)
  have s: "String zeroFilter = bs # ''appid'' @ [bs] @ ''0''"
    by (simp add: String_def emit_def zeroFilter_def Itoa_def)
  have f: "filterServers pivotSort cfg testServers zeroFilter
      = [server4, server3, server1, server5, server2]" for cfg
    by (simp add: filterServers_def excludeServers_def zeroFilter_def sort_Slice_def
        maxInsertion_def testServers_def insertionSort_def insertDown_step swap_def
        playersLess_def)
  have z: "Limit zeroFilter = 0" "AppID zeroFilter = 0" by (simp_all add: zeroFilter_def)
  show ?thesis
    using e
    by (simp add: z Validate_def GetServerList_def Let_def u s sendRequest_def
        GetServerListURL_def DefaultLimit_def Itoa_def StatusOK_def f)
      (simp add: testEnv_def f newWorld_def StatusOK_def Let_def)
qed

text \<open>
  Claim C4, amended.  For a filter whose \<open>AppID\<close> is zero, \<open>Validate\<close> fails with the
  required-parameter error that names \<open>appid\<close>.  \<open>GetServerList\<close> does not call \<open>Validate\<close>:
  the filter is encoded with the segment \<open>\appid\0\<close> first, and an enabled client sends
  the request for it unless the URI is rejected.
\<close>

theorem Validate_zero_appid:
  "AppID flt = 0 \<Longrightarrow>
     Validate flt = Some (ErrRequiredParam ''appid'')
   \<and> prefix (bs # ''appid'' @ [bs] @ ''0'') (String flt)
   \<and> (\<not> Disabled (config (client w)) \<longrightarrow>
        NewRequest env
          (URL (config (client w))
             @ GetServerListURL (Key (config (client w)))
                 (if Limit flt = 0 then DefaultLimit else Limit flt) (String flt)) = None \<longrightarrow>
        requests (snd (GetServerList env flt w))
          = requests w
              @ [URL (config (client w))
                   @ GetServerListURL (Key (config (client w)))
                       (if Limit flt = 0 then DefaultLimit else Limit flt) (String flt)])"
proof -
  assume z: "AppID flt = 0"
  have "Itoa 0 = ''0''" by (simp add: Itoa_def)
  with z have "prefix (bs # ''appid'' @ [bs] @ ''0'') (String flt)"
    by (subst String_segments) simp
  moreover from z have "Validate flt = Some (ErrRequiredParam ''appid'')"
    by (simp add: Validate_def)
  ultimately show ?thesis
    by (simp add: GetServerList_world sendRequest_requests)
qed

theorem Validate_zero_appid_witness:
  "AppID zeroFilter = 0
   \<and> Validate zeroFilter = Some (ErrRequiredParam ''appid'')
   \<and> prefix (bs # ''appid'' @ [bs] @ ''0'') (String zeroFilter)
   \<and> \<not> Disabled (config (client (newWorld (newConfig testURL))))
   \<and> requests (snd (GetServerList testEnv zeroFilter (newWorld (newConfig testURL))))
       = [''http://127.0.0.1:8080/IGameServersService/GetServerList/v1?key=R1jamSsz17LHA9WgDW099YGfCs4fn0m0&limit=50000&filter=''
            @ bs # ''appid'' @ [bs] @ ''0'']"
proof -
  have z: "AppID zeroFilter = 0" by (simp add: zeroFilter_def)
  have e: "\<not> Disabled (config (client (newWorld (newConfig testURL))))"
    by (simp add: newWorld_config SetDefaults_newConfig testURL_def) (simp add: newConfig_def)
  have u: "URL (config (client (newWorld (newConfig testURL)))) = ''http://127.0.0.1:8080''"
    "Key (config (client (newWorld (newConfig testURL)))) = ''R1jamSsz17LHA9WgDW099YGfCs4fn0m0''"
    "requests (newWorld (newConfig testURL)) = []"
    by (simp_all add: newWorld_config SetDefaults_newConfig testURL_def)
      (simp_all add: newConfig_def newWorld_def)
  have s: "String zeroFilter = bs # ''appid'' @ [bs] @ ''0''"
    by (simp add: String_def emit_def zeroFilter_def Itoa_def)
  have l: "Limit zeroFilter = 0" by (simp add: zeroFilter_def)
  have n: "NewRequest testEnv x = None" for x by (simp add: testEnv_def)
  show ?thesis
    using z e Validate_zero_appid [OF z, of "newWorld (newConfig testURL)" testEnv]
    by (simp add: u s l n GetServerListURL_def DefaultLimit_def Itoa_def)
qed

end
